theory Spec2Isabelle
  imports Main "HOL-Library.Word" "HOL-Library.Sublist"
begin

unbundle bit_operations_syntax

text \<open>
  The two interfaces of LibSerial to a serial line. The stream buffer
  (\<^verbatim>\<open>SerialStreamBuf.cc\<close>) is an unbuffered \<^verbatim>\<open>std::streambuf\<close> with a putback cell
  of one byte, and has the setters and getters of the line's configuration. The
  serial port handle (\<^verbatim>\<open>SerialPort.cpp\<close>) opens and closes the line with an is-open
  flag and exceptions. Every member function becomes a function from the data members
  and the state of the operating system to its result and the new members and state;
  a function that assigns no member returns no members.
\<close>

section \<open>The terminal attribute structure and its constants\<close>

text \<open>
  The POSIX \<^verbatim>\<open>struct termios\<close>. The flag words are 32 bit, a control character is
  one byte. The array \<^verbatim>\<open>c_cc\<close> is only ever indexed by the constants \<^verbatim>\<open>VMIN\<close>,
  \<^verbatim>\<open>VTIME\<close>, \<^verbatim>\<open>VSTART\<close> and \<^verbatim>\<open>VSTOP\<close>, so it is a total function from
  indices to bytes. The structure of glibc has the two speed fields \<^verbatim>\<open>c_ispeed\<close> and
  \<^verbatim>\<open>c_ospeed\<close>; on Linux the speed that counts is in the \<^verbatim>\<open>CBAUD\<close> bits of
  \<^verbatim>\<open>c_cflag\<close>.
\<close>

type_synonym tcflag_t = "32 word"
type_synonym speed_t = "32 word"
type_synonym cc_t = "8 word"

record termios =
  c_iflag :: tcflag_t
  c_oflag :: tcflag_t
  c_cflag :: tcflag_t
  c_lflag :: tcflag_t
  c_line :: cc_t
  c_cc :: "nat \<Rightarrow> cc_t"
  c_ispeed :: speed_t
  c_ospeed :: speed_t

text \<open>The values of the constants are those of Linux (asm-generic/termbits.h, fcntl.h).\<close>

definition IGNBRK :: tcflag_t where "IGNBRK = 0x1"
definition IBAUD0 :: tcflag_t where "IBAUD0 = 0x80000000"
definition ISTRIP :: tcflag_t where "ISTRIP = 0x20"
definition IXON :: tcflag_t where "IXON = 0x400"
definition IXOFF :: tcflag_t where "IXOFF = 0x1000"

definition CSIZE :: tcflag_t where "CSIZE = 0x30"
definition CS5 :: tcflag_t where "CS5 = 0x0"
definition CS6 :: tcflag_t where "CS6 = 0x10"
definition CS7 :: tcflag_t where "CS7 = 0x20"
definition CS8 :: tcflag_t where "CS8 = 0x30"
definition CSTOPB :: tcflag_t where "CSTOPB = 0x40"
definition CREAD :: tcflag_t where "CREAD = 0x80"
definition PARENB :: tcflag_t where "PARENB = 0x100"
definition PARODD :: tcflag_t where "PARODD = 0x200"
definition CLOCAL :: tcflag_t where "CLOCAL = 0x800"
definition CBAUD :: tcflag_t where "CBAUD = 0x100F"
definition CBAUDEX :: tcflag_t where "CBAUDEX = 0x1000"
definition CRTSCTS :: tcflag_t where "CRTSCTS = 0x80000000"

definition VTIME :: nat where "VTIME = 5"
definition VMIN :: nat where "VMIN = 6"
definition VSTART :: nat where "VSTART = 8"
definition VSTOP :: nat where "VSTOP = 9"

definition POSIX_VDISABLE :: cc_t where "POSIX_VDISABLE = 0"
definition CTRL_Q :: cc_t where "CTRL_Q = 0x11"
definition CTRL_S :: cc_t where "CTRL_S = 0x13"

definition B50 :: speed_t where "B50 = 1"
definition B75 :: speed_t where "B75 = 2"
definition B110 :: speed_t where "B110 = 3"
definition B134 :: speed_t where "B134 = 4"
definition B150 :: speed_t where "B150 = 5"
definition B200 :: speed_t where "B200 = 6"
definition B300 :: speed_t where "B300 = 7"
definition B600 :: speed_t where "B600 = 8"
definition B1200 :: speed_t where "B1200 = 9"
definition B1800 :: speed_t where "B1800 = 10"
definition B2400 :: speed_t where "B2400 = 11"
definition B4800 :: speed_t where "B4800 = 12"
definition B9600 :: speed_t where "B9600 = 13"
definition B19200 :: speed_t where "B19200 = 14"
definition B38400 :: speed_t where "B38400 = 15"
definition B57600 :: speed_t where "B57600 = 0x1001"
definition B115200 :: speed_t where "B115200 = 0x1002"
definition B4000000 :: speed_t where "B4000000 = 0x100F"
definition MAX_BAUD :: speed_t where "MAX_BAUD = B4000000"

definition O_RDONLY :: int where "O_RDONLY = 0"
definition O_WRONLY :: int where "O_WRONLY = 1"
definition O_RDWR :: int where "O_RDWR = 2"
definition O_NOCTTY :: int where "O_NOCTTY = 0x100"
definition O_NONBLOCK :: int where "O_NONBLOCK = 0x800"
definition FASYNC :: int where "FASYNC = 0x2000"

definition TCIFLUSH :: int where "TCIFLUSH = 0"
definition TCOFLUSH :: int where "TCOFLUSH = 1"
definition TCIOFLUSH :: int where "TCIOFLUSH = 2"

definition SIGIO :: int where "SIGIO = 29"

section \<open>The operating system, as far as the library talks to it\<close>

text \<open>
  Every system call the library makes is a function on a \<open>kernel\<close> state. The state
  holds the attributes of the serial line, the file status flags, the bytes that have
  arrived and were not read yet, the descriptors in use, the process id and the owner
  that \<^verbatim>\<open>F_SETOWN\<close> sets. \<open>k_attr\<close> is the attribute structure as \<^verbatim>\<open>tcgetattr\<close>
  delivers it. \<open>k_handlers\<close> belongs to the process, not to the kernel: the signals
  for which the serial port handle is registered with the signal dispatcher. What the
  program cannot decide is data of the state as well:
  \<^item> \<open>k_faults\<close> says which of the coming calls fail: every call takes the head of the
    list, \<open>True\<close> makes the call return -1 and change nothing; an empty list means no
    failure;
  \<^item> \<open>k_accept old new\<close> is what the driver stores when \<^verbatim>\<open>tcsetattr\<close> asks for
    \<open>new\<close> while it holds \<open>old\<close> (POSIX lets \<^verbatim>\<open>tcsetattr\<close> succeed when only some
    of the changes were carried out); an ideal driver is \<open>\<lambda>old new. new\<close>.
  \<open>k_trace\<close> records every call with its result, in call order, so that a theorem can
  say which calls an operation made. A read that would block for ever is outside the
  model: a \<^verbatim>\<open>read\<close> that does not fail returns the bytes that are there, at most as
  many as were asked for.
\<close>

datatype syscall =
    Sys_open string int
  | Sys_close int
  | Sys_read int int
  | Sys_fcntl_getfl int
  | Sys_fcntl_setfl int int
  | Sys_fcntl_setown int int
  | Sys_tcgetattr int
  | Sys_tcsetattr int termios
  | Sys_tcflush int int

record kernel =
  k_attr :: termios
  k_flags :: int
  k_rx :: "8 word list"
  k_fds :: "int list"
  k_pid :: int
  k_owner :: int
  k_handlers :: "int list"
  k_faults :: "bool list"
  k_accept :: "termios \<Rightarrow> termios \<Rightarrow> termios"
  k_trace :: "(syscall \<times> int) list"

definition fault :: "kernel \<Rightarrow> bool" where
  "fault k = (case k_faults k of [] \<Rightarrow> False | b # _ \<Rightarrow> b)"

text \<open>\<open>failing n k\<close>: of the coming calls, the one with number \<open>n\<close> (from 0) fails.\<close>

definition failing :: "nat \<Rightarrow> kernel \<Rightarrow> bool" where
  "failing n k = (n < length (k_faults k) \<and> k_faults k ! n)"

definition logged :: "syscall \<Rightarrow> int \<Rightarrow> kernel \<Rightarrow> kernel" where
  "logged c r k = k\<lparr>k_faults := tl (k_faults k), k_trace := k_trace k @ [(c, r)]\<rparr>"

definition new_fd :: "int list \<Rightarrow> int" where
  "new_fd fds = fold max fds 2 + 1"

definition sys_open :: "string \<Rightarrow> int \<Rightarrow> kernel \<Rightarrow> int \<times> kernel" where
  "sys_open path flags k =
     (if fault k then (-1, logged (Sys_open path flags) (-1) k)
      else let fd = new_fd (k_fds k)
           in (fd, logged (Sys_open path flags) fd (k\<lparr>k_fds := fd # k_fds k\<rparr>)))"

definition sys_close :: "int \<Rightarrow> kernel \<Rightarrow> int \<times> kernel" where
  "sys_close fd k =
     (if fault k then (-1, logged (Sys_close fd) (-1) k)
      else (0, logged (Sys_close fd) 0 (k\<lparr>k_fds := removeAll fd (k_fds k)\<rparr>)))"

definition sys_read :: "int \<Rightarrow> int \<Rightarrow> kernel \<Rightarrow> int \<times> 8 word list \<times> kernel" where
  "sys_read fd n k =
     (if fault k then (-1, [], logged (Sys_read fd n) (-1) k)
      else let bs = take (nat n) (k_rx k)
           in (int (length bs), bs,
               logged (Sys_read fd n) (int (length bs)) (k\<lparr>k_rx := drop (nat n) (k_rx k)\<rparr>)))"

definition sys_fcntl_getfl :: "int \<Rightarrow> kernel \<Rightarrow> int \<times> kernel" where
  "sys_fcntl_getfl fd k =
     (if fault k then (-1, logged (Sys_fcntl_getfl fd) (-1) k)
      else (k_flags k, logged (Sys_fcntl_getfl fd) (k_flags k) k))"

definition sys_fcntl_setfl :: "int \<Rightarrow> int \<Rightarrow> kernel \<Rightarrow> int \<times> kernel" where
  "sys_fcntl_setfl fd fl k =
     (if fault k then (-1, logged (Sys_fcntl_setfl fd fl) (-1) k)
      else (0, logged (Sys_fcntl_setfl fd fl) 0 (k\<lparr>k_flags := fl\<rparr>)))"

definition sys_tcgetattr :: "int \<Rightarrow> kernel \<Rightarrow> termios option \<times> kernel" where
  "sys_tcgetattr fd k =
     (if fault k then (None, logged (Sys_tcgetattr fd) (-1) k)
      else (Some (k_attr k), logged (Sys_tcgetattr fd) 0 k))"

definition sys_tcsetattr :: "int \<Rightarrow> termios \<Rightarrow> kernel \<Rightarrow> int \<times> kernel" where
  "sys_tcsetattr fd t k =
     (if fault k then (-1, logged (Sys_tcsetattr fd t) (-1) k)
      else (0, logged (Sys_tcsetattr fd t) 0 (k\<lparr>k_attr := k_accept k (k_attr k) t\<rparr>)))"

definition sys_fcntl_setown :: "int \<Rightarrow> int \<Rightarrow> kernel \<Rightarrow> int \<times> kernel" where
  "sys_fcntl_setown fd pid k =
     (if fault k then (-1, logged (Sys_fcntl_setown fd pid) (-1) k)
      else (0, logged (Sys_fcntl_setown fd pid) 0 (k\<lparr>k_owner := pid\<rparr>)))"

definition getpid :: "kernel \<Rightarrow> int" where
  "getpid k = k_pid k"

text \<open>
  \<^verbatim>\<open>tcflush\<close> discards the received bytes when the queue selector names the input
  queue; the bytes written and not yet sent are not part of the state.
\<close>

definition sys_tcflush :: "int \<Rightarrow> int \<Rightarrow> kernel \<Rightarrow> int \<times> kernel" where
  "sys_tcflush fd queue_selector k =
     (if fault k then (-1, logged (Sys_tcflush fd queue_selector) (-1) k)
      else (0, logged (Sys_tcflush fd queue_selector) 0
                 (if queue_selector = TCIFLUSH \<or> queue_selector = TCIOFLUSH
                  then k\<lparr>k_rx := []\<rparr> else k)))"

text \<open>The calls an operation made: what it appended to the trace.\<close>

definition calls :: "kernel \<Rightarrow> kernel \<Rightarrow> (syscall \<times> int) list" where
  "calls k k' = drop (length (k_trace k)) (k_trace k')"

section \<open>The stream buffer\<close>

text \<open>
  The character traits of \<^verbatim>\<open>std::streambuf\<close>: \<^verbatim>\<open>int_type\<close> is \<open>int\<close>, a character is
  a byte, the end-of-file marker is -1, and a character becomes an \<^verbatim>\<open>int_type\<close>
  through \<^verbatim>\<open>unsigned char\<close>.
\<close>

definition traits_eof :: int where
  "traits_eof = -1"

definition eq_int_type :: "int \<Rightarrow> int \<Rightarrow> bool" where
  "eq_int_type a b = (a = b)"

definition to_char_type :: "int \<Rightarrow> 8 word" where
  "to_char_type c = word_of_int c"

definition to_int_type :: "8 word \<Rightarrow> int" where
  "to_int_type ch = uint ch"

definition not_eof :: "int \<Rightarrow> int" where
  "not_eof c = (if eq_int_type c traits_eof then 0 else c)"

text \<open>The data members of \<^verbatim>\<open>SerialStreamBuf::Implementation\<close> and its constructor.\<close>

record Implementation =
  mPutbackChar :: "8 word"
  mPutbackAvailable :: bool
  mFileDescriptor :: int

definition Implementation_new :: Implementation where
  "Implementation_new = \<lparr>mPutbackChar = 0, mPutbackAvailable = False, mFileDescriptor = -1\<rparr>"

definition is_open :: "Implementation \<Rightarrow> bool" where
  "is_open m = (-1 \<noteq> mFileDescriptor m)"

text \<open>
  \<open>poke s i bs\<close> is the caller's array \<open>s\<close> after \<^verbatim>\<open>read\<close> has put the bytes \<open>bs\<close>
  at \<open>s[i]\<close>, \<open>s[i+1]\<close>, ... An array shorter than what is written is undefined
  behaviour in C++; the list drops such a write, and the theorems that look into the
  array ask for one that is long enough.
\<close>

fun poke :: "8 word list \<Rightarrow> nat \<Rightarrow> 8 word list \<Rightarrow> 8 word list" where
  "poke s i [] = s"
| "poke s i (b # bs) = poke (s[i := b]) (Suc i) bs"

text \<open>\<^verbatim>\<open>xsgetn(s, n)\<close>: the result, the array, the members and the kernel afterwards.\<close>

definition xsgetn ::
  "Implementation \<Rightarrow> 8 word list \<Rightarrow> int \<Rightarrow> kernel \<Rightarrow> int \<times> 8 word list \<times> Implementation \<times> kernel" where
  "xsgetn m s n k =
     (if -1 = mFileDescriptor m \<or> n \<le> 0 then (0, s, m, k)
      else if mPutbackAvailable m then
        (let s1 = s[0 := mPutbackChar m];
             retval = (0::int) + 1;
             m1 = m\<lparr>mPutbackAvailable := False\<rparr>
         in if n > 1 then
              (case sys_read (mFileDescriptor m1) (n - 1) k of (rd, bs, k1) \<Rightarrow>
                 let s2 = poke s1 1 bs;
                     retval = (if rd \<noteq> -1 then rd + 1 else rd)
                 in (if -1 = retval \<or> 0 = retval then 0 else retval, s2, m1, k1))
            else (if -1 = retval \<or> 0 = retval then 0 else retval, s1, m1, k))
      else
        (case sys_read (mFileDescriptor m) n k of (retval, bs, k1) \<Rightarrow>
           (if -1 = retval \<or> 0 = retval then 0 else retval, poke s 0 bs, m, k1)))"

text \<open>
  \<^verbatim>\<open>showmanyc()\<close>. The probe reads straight into \<^verbatim>\<open>mPutbackChar\<close>, so a byte that
  arrives is in the member whatever happens afterwards.
\<close>

definition showmanyc :: "Implementation \<Rightarrow> kernel \<Rightarrow> int \<times> Implementation \<times> kernel" where
  "showmanyc m k =
     (if -1 = mFileDescriptor m then (-1, m, k)
      else if mPutbackAvailable m then (1, m, k)
      else
        (case sys_fcntl_getfl (mFileDescriptor m) k of (flags, k1) \<Rightarrow>
         case sys_fcntl_setfl (mFileDescriptor m) (flags OR O_NONBLOCK) k1 of (r1, k2) \<Rightarrow>
           if -1 = r1 then (-1, m, k2)
           else
             (case sys_read (mFileDescriptor m) 1 k2 of (rd, bs, k3) \<Rightarrow>
                let m1 = m\<lparr>mPutbackChar := (case bs of [] \<Rightarrow> mPutbackChar m | b # _ \<Rightarrow> b)\<rparr>;
                    m2 = (if rd = 1 then m1\<lparr>mPutbackAvailable := True\<rparr> else m1);
                    retval = (if rd = 1 then rd else 0)
                in (case sys_fcntl_setfl (mFileDescriptor m2) flags k3 of (r2, k4) \<Rightarrow>
                      if -1 = r2 then (-1, m2, k4) else (retval, m2, k4)))))"

text \<open>
  \<^verbatim>\<open>underflow()\<close>. The local \<^verbatim>\<open>next_ch\<close> is not initialised; it keeps that
  unspecified value when \<^verbatim>\<open>read\<close> delivers nothing.
\<close>

definition underflow :: "Implementation \<Rightarrow> kernel \<Rightarrow> int \<times> Implementation \<times> kernel" where
  "underflow m k =
     (if -1 = mFileDescriptor m then (traits_eof, m, k)
      else if mPutbackAvailable m then (to_int_type (mPutbackChar m), m, k)
      else
        (case sys_read (mFileDescriptor m) 1 k of (retval, bs, k1) \<Rightarrow>
           let next_ch = (case bs of [] \<Rightarrow> undefined | b # _ \<Rightarrow> b)
           in if retval = 1 then
                (to_int_type next_ch, m\<lparr>mPutbackChar := next_ch, mPutbackAvailable := True\<rparr>, k1)
              else if -1 = retval \<or> 0 = retval then (traits_eof, m, k1)
              else (to_int_type next_ch, m, k1)))"

text \<open>\<^verbatim>\<open>uflow()\<close> of the buffer: \<^verbatim>\<open>underflow()\<close>, then the putback byte is consumed.\<close>

definition uflow :: "Implementation \<Rightarrow> kernel \<Rightarrow> int \<times> Implementation \<times> kernel" where
  "uflow m k =
     (case underflow m k of (next_ch, m1, k1) \<Rightarrow> (next_ch, m1\<lparr>mPutbackAvailable := False\<rparr>, k1))"

text \<open>\<^verbatim>\<open>pbackfail(c)\<close> makes no system call.\<close>

definition pbackfail :: "Implementation \<Rightarrow> int \<Rightarrow> int \<times> Implementation" where
  "pbackfail m c =
     (if -1 = mFileDescriptor m then (traits_eof, m)
      else if mPutbackAvailable m then (traits_eof, m)
      else if eq_int_type c traits_eof then (traits_eof, m)
      else (not_eof c, m\<lparr>mPutbackChar := to_char_type c, mPutbackAvailable := True\<rparr>))"

section \<open>Configuration: the enumerations and what the missing header declares\<close>

text \<open>
  The enumerations of the library. \<^verbatim>\<open>BaudRate\<close> lists the rates that
  \<^verbatim>\<open>SetBaudRate\<close> and \<^verbatim>\<open>GetBaudRate\<close> name, the higher rates that the tests name,
  and the invalid value.
\<close>

datatype BaudRate =
    BAUD_50 | BAUD_75 | BAUD_110 | BAUD_134 | BAUD_150 | BAUD_200 | BAUD_300 | BAUD_600
  | BAUD_1200 | BAUD_1800 | BAUD_2400 | BAUD_4800 | BAUD_9600 | BAUD_19200 | BAUD_38400
  | BAUD_57600 | BAUD_115200
  | BAUD_230400 | BAUD_460800 | BAUD_500000 | BAUD_576000 | BAUD_921600 | BAUD_1000000
  | BAUD_1152000 | BAUD_1500000 | BAUD_2000000 | BAUD_2500000 | BAUD_3000000
  | BAUD_3500000 | BAUD_4000000
  | BAUD_INVALID

datatype CharSize = CHAR_SIZE_5 | CHAR_SIZE_6 | CHAR_SIZE_7 | CHAR_SIZE_8 | CHAR_SIZE_INVALID

datatype ParityEnum = PARITY_EVEN | PARITY_ODD | PARITY_NONE | PARITY_INVALID

datatype FlowControlEnum =
  FLOW_CONTROL_HARD | FLOW_CONTROL_SOFT | FLOW_CONTROL_NONE | FLOW_CONTROL_INVALID

text \<open>
  The header \<^verbatim>\<open>SerialStreamBuf.h\<close> is not among the sources. What the code takes from
  it is a parameter of the model: the integer value of every enumerator (the code casts
  a \<^verbatim>\<open>BaudRate\<close> to \<^verbatim>\<open>speed_t\<close> and a \<^verbatim>\<open>CharSize\<close> to \<^verbatim>\<open>tcflag_t\<close>, and compares a
  \<^verbatim>\<open>ParityEnum\<close> and a \<^verbatim>\<open>FlowControlEnum\<close> with -1) and the default settings.
\<close>

record header =
  BaudRate_value :: "BaudRate \<Rightarrow> speed_t"
  CharSize_value :: "CharSize \<Rightarrow> tcflag_t"
  ParityEnum_value :: "ParityEnum \<Rightarrow> int"
  FlowControlEnum_value :: "FlowControlEnum \<Rightarrow> int"
  DEFAULT_BAUD :: BaudRate
  DEFAULT_CHAR_SIZE :: CharSize
  DEFAULT_NO_OF_STOP_BITS :: int
  DEFAULT_PARITY :: ParityEnum
  DEFAULT_FLOW_CONTROL :: FlowControlEnum
  DEFAULT_VMIN :: int
  DEFAULT_VTIME :: int

text \<open>
  The four speed functions are those of glibc for Linux
  (\<^verbatim>\<open>sysdeps/unix/sysv/linux/speed.c\<close>, up to version 2.41). The speed is kept in the
  \<^verbatim>\<open>CBAUD\<close> bits of \<^verbatim>\<open>c_cflag\<close>, one speed for both directions; the bit \<^verbatim>\<open>IBAUD0\<close>
  of \<^verbatim>\<open>c_iflag\<close> remembers an input speed of 0. A setter refuses a speed that is
  has a bit outside \<^verbatim>\<open>CBAUD\<close>: it returns -1 and leaves the structure as it is.
\<close>

definition cfgetospeed :: "termios \<Rightarrow> speed_t" where
  "cfgetospeed termios_p = c_cflag termios_p AND (CBAUD OR CBAUDEX)"

definition cfgetispeed :: "termios \<Rightarrow> speed_t" where
  "cfgetispeed termios_p =
     (if c_iflag termios_p AND IBAUD0 \<noteq> 0 then 0
      else c_cflag termios_p AND (CBAUD OR CBAUDEX))"

definition cfsetospeed :: "termios \<Rightarrow> speed_t \<Rightarrow> int \<times> termios" where
  "cfsetospeed termios_p speed =
     (if speed AND NOT CBAUD \<noteq> 0 \<and> (speed < B57600 \<or> speed > MAX_BAUD) then (-1, termios_p)
      else
        (let t1 = termios_p\<lparr>c_ospeed := speed\<rparr>;
             t2 = t1\<lparr>c_cflag := c_cflag t1 AND NOT (CBAUD OR CBAUDEX)\<rparr>
         in (0, t2\<lparr>c_cflag := c_cflag t2 OR speed\<rparr>)))"

definition cfsetispeed :: "termios \<Rightarrow> speed_t \<Rightarrow> int \<times> termios" where
  "cfsetispeed termios_p speed =
     (if speed AND NOT CBAUD \<noteq> 0 \<and> (speed < B57600 \<or> speed > MAX_BAUD) then (-1, termios_p)
      else
        (let t1 = termios_p\<lparr>c_ispeed := speed\<rparr>
         in if speed = 0 then (0, t1\<lparr>c_iflag := c_iflag t1 OR IBAUD0\<rparr>)
            else
              (let t2 = t1\<lparr>c_iflag := c_iflag t1 AND NOT IBAUD0\<rparr>;
                   t3 = t2\<lparr>c_cflag := c_cflag t2 AND NOT (CBAUD OR CBAUDEX)\<rparr>
               in (0, t3\<lparr>c_cflag := c_cflag t3 OR speed\<rparr>))))"

text \<open>
  The setters and getters assign no data member: they take the members and the kernel
  and return their result and the kernel. \<^verbatim>\<open>tcgetattr\<close> fills a local structure,
  the function changes it, and \<^verbatim>\<open>tcsetattr\<close> gets the changed structure. A
  \<^verbatim>\<open>switch\<close> whose \<^verbatim>\<open>default\<close> returns is a test whether the argument is one of
  the labels; in \<^verbatim>\<open>SetParity\<close>, where the labels differ in what they do, the
  \<^verbatim>\<open>switch\<close> yields the changed structure, or nothing for the \<^verbatim>\<open>default\<close>. A
  flag test such as \<^verbatim>\<open>c_cflag & CSTOPB\<close> is true when the word is not 0.
\<close>

subsection \<open>Baud rate\<close>

definition GetBaudRate :: "Implementation \<Rightarrow> kernel \<Rightarrow> BaudRate \<times> kernel" where
  "GetBaudRate m k =
     (if -1 = mFileDescriptor m then (BAUD_INVALID, k)
      else
        (case sys_tcgetattr (mFileDescriptor m) k of
           (None, k1) \<Rightarrow> (BAUD_INVALID, k1)
         | (Some term_setting, k1) \<Rightarrow>
             let input_baud = cfgetispeed term_setting;
                 output_baud = cfgetospeed term_setting
             in if input_baud \<noteq> output_baud then (BAUD_INVALID, k1)
                else
                  (if input_baud = B50 then BAUD_50
                   else if input_baud = B75 then BAUD_75
                   else if input_baud = B110 then BAUD_110
                   else if input_baud = B134 then BAUD_134
                   else if input_baud = B150 then BAUD_150
                   else if input_baud = B200 then BAUD_200
                   else if input_baud = B300 then BAUD_300
                   else if input_baud = B600 then BAUD_600
                   else if input_baud = B1200 then BAUD_1200
                   else if input_baud = B1800 then BAUD_1800
                   else if input_baud = B2400 then BAUD_2400
                   else if input_baud = B4800 then BAUD_4800
                   else if input_baud = B9600 then BAUD_9600
                   else if input_baud = B19200 then BAUD_19200
                   else if input_baud = B38400 then BAUD_38400
                   else if input_baud = B57600 then BAUD_57600
                   else if input_baud = B115200 then BAUD_115200
                   else BAUD_INVALID, k1)))"

text \<open>The \<^verbatim>\<open>case\<close> labels of the \<^verbatim>\<open>switch\<close> in \<^verbatim>\<open>SetBaudRate\<close>.\<close>

definition SetBaudRate_cases :: "BaudRate list" where
  "SetBaudRate_cases =
     [BAUD_50, BAUD_75, BAUD_110, BAUD_134, BAUD_150, BAUD_200, BAUD_300, BAUD_600,
      BAUD_1200, BAUD_1800, BAUD_2400, BAUD_4800, BAUD_9600, BAUD_19200, BAUD_38400,
      BAUD_57600, BAUD_115200]"

definition SetBaudRate :: "header \<Rightarrow> Implementation \<Rightarrow> BaudRate \<Rightarrow> kernel \<Rightarrow> BaudRate \<times> kernel" where
  "SetBaudRate h m baud_rate k =
     (if -1 = mFileDescriptor m then (BAUD_INVALID, k)
      else if baud_rate \<in> set SetBaudRate_cases then
        (case sys_tcgetattr (mFileDescriptor m) k of
           (None, k1) \<Rightarrow> (BAUD_INVALID, k1)
         | (Some term_setting, k1) \<Rightarrow>
             let t1 = snd (cfsetispeed term_setting (BaudRate_value h baud_rate));
                 t2 = snd (cfsetospeed t1 (BaudRate_value h baud_rate))
             in (case sys_tcsetattr (mFileDescriptor m) t2 k1 of (r, k2) \<Rightarrow>
                   if -1 = r then (BAUD_INVALID, k2) else GetBaudRate m k2))
      else (BAUD_INVALID, k))"

subsection \<open>Character size\<close>

definition GetCharSize :: "Implementation \<Rightarrow> kernel \<Rightarrow> CharSize \<times> kernel" where
  "GetCharSize m k =
     (if -1 = mFileDescriptor m then (CHAR_SIZE_INVALID, k)
      else
        (case sys_tcgetattr (mFileDescriptor m) k of
           (None, k1) \<Rightarrow> (CHAR_SIZE_INVALID, k1)
         | (Some term_setting, k1) \<Rightarrow>
             let char_size = c_cflag term_setting AND CSIZE
             in (if char_size = CS5 then CHAR_SIZE_5
                 else if char_size = CS6 then CHAR_SIZE_6
                 else if char_size = CS7 then CHAR_SIZE_7
                 else if char_size = CS8 then CHAR_SIZE_8
                 else CHAR_SIZE_INVALID, k1)))"

definition SetCharSize :: "header \<Rightarrow> Implementation \<Rightarrow> CharSize \<Rightarrow> kernel \<Rightarrow> CharSize \<times> kernel" where
  "SetCharSize h m char_size k =
     (if -1 = mFileDescriptor m then (CHAR_SIZE_INVALID, k)
      else if char_size \<in> set [CHAR_SIZE_5, CHAR_SIZE_6, CHAR_SIZE_7, CHAR_SIZE_8] then
        (case sys_tcgetattr (mFileDescriptor m) k of
           (None, k1) \<Rightarrow> (CHAR_SIZE_INVALID, k1)
         | (Some term_setting, k1) \<Rightarrow>
             let t1 = (if char_size = CHAR_SIZE_8
                       then term_setting\<lparr>c_iflag := c_iflag term_setting AND NOT ISTRIP\<rparr>
                       else term_setting\<lparr>c_iflag := c_iflag term_setting OR ISTRIP\<rparr>);
                 t2 = t1\<lparr>c_cflag := c_cflag t1 AND NOT CSIZE\<rparr>;
                 t3 = t2\<lparr>c_cflag := c_cflag t2 OR CharSize_value h char_size\<rparr>
             in (case sys_tcsetattr (mFileDescriptor m) t3 k1 of (r, k2) \<Rightarrow>
                   if -1 = r then (CHAR_SIZE_INVALID, k2) else GetCharSize m k2))
      else (CHAR_SIZE_INVALID, k))"

subsection \<open>Stop bits\<close>

definition GetNumOfStopBits :: "Implementation \<Rightarrow> kernel \<Rightarrow> int \<times> kernel" where
  "GetNumOfStopBits m k =
     (if -1 = mFileDescriptor m then (0, k)
      else
        (case sys_tcgetattr (mFileDescriptor m) k of
           (None, k1) \<Rightarrow> (0, k1)
         | (Some term_setting, k1) \<Rightarrow>
             (if c_cflag term_setting AND CSTOPB \<noteq> 0 then 2 else 1, k1)))"

definition SetNumOfStopBits :: "Implementation \<Rightarrow> int \<Rightarrow> kernel \<Rightarrow> int \<times> kernel" where
  "SetNumOfStopBits m stop_bits k =
     (if -1 = mFileDescriptor m then (0, k)
      else
        (case sys_tcgetattr (mFileDescriptor m) k of
           (None, k1) \<Rightarrow> (0, k1)
         | (Some term_setting, k1) \<Rightarrow>
             if stop_bits = 1 \<or> stop_bits = 2 then
               (let t1 = (if stop_bits = 1
                          then term_setting\<lparr>c_cflag := c_cflag term_setting AND NOT CSTOPB\<rparr>
                          else term_setting\<lparr>c_cflag := c_cflag term_setting OR CSTOPB\<rparr>)
                in (case sys_tcsetattr (mFileDescriptor m) t1 k1 of (r, k2) \<Rightarrow>
                      if -1 = r then (0, k2) else GetNumOfStopBits m k2))
             else (0, k1)))"

subsection \<open>Parity\<close>

definition GetParity :: "Implementation \<Rightarrow> kernel \<Rightarrow> ParityEnum \<times> kernel" where
  "GetParity m k =
     (if -1 = mFileDescriptor m then (PARITY_INVALID, k)
      else
        (case sys_tcgetattr (mFileDescriptor m) k of
           (None, k1) \<Rightarrow> (PARITY_INVALID, k1)
         | (Some term_setting, k1) \<Rightarrow>
             (if c_cflag term_setting AND PARENB \<noteq> 0
              then (if c_cflag term_setting AND PARODD \<noteq> 0 then PARITY_ODD else PARITY_EVEN)
              else PARITY_NONE, k1)))"

definition SetParity :: "Implementation \<Rightarrow> ParityEnum \<Rightarrow> kernel \<Rightarrow> ParityEnum \<times> kernel" where
  "SetParity m parity k =
     (if -1 = mFileDescriptor m then (PARITY_INVALID, k)
      else
        (case sys_tcgetattr (mFileDescriptor m) k of
           (None, k1) \<Rightarrow> (PARITY_INVALID, k1)
         | (Some term_setting, k1) \<Rightarrow>
             (case (case parity of
                      PARITY_EVEN \<Rightarrow>
                        Some (let t1 = term_setting\<lparr>c_cflag := c_cflag term_setting OR PARENB\<rparr>
                              in t1\<lparr>c_cflag := c_cflag t1 AND NOT PARODD\<rparr>)
                    | PARITY_ODD \<Rightarrow>
                        Some (let t1 = term_setting\<lparr>c_cflag := c_cflag term_setting OR PARENB\<rparr>
                              in t1\<lparr>c_cflag := c_cflag t1 OR PARODD\<rparr>)
                    | PARITY_NONE \<Rightarrow>
                        Some (term_setting\<lparr>c_cflag := c_cflag term_setting AND NOT PARENB\<rparr>)
                    | PARITY_INVALID \<Rightarrow> None) of
                None \<Rightarrow> (PARITY_INVALID, k1)
              | Some t2 \<Rightarrow>
                  (case sys_tcsetattr (mFileDescriptor m) t2 k1 of (r, k2) \<Rightarrow>
                     if -1 = r then (PARITY_INVALID, k2) else GetParity m k2))))"

subsection \<open>Flow control\<close>

definition GetFlowControl :: "Implementation \<Rightarrow> kernel \<Rightarrow> FlowControlEnum \<times> kernel" where
  "GetFlowControl m k =
     (if -1 = mFileDescriptor m then (FLOW_CONTROL_INVALID, k)
      else
        (case sys_tcgetattr (mFileDescriptor m) k of
           (None, k1) \<Rightarrow> (FLOW_CONTROL_INVALID, k1)
         | (Some tset, k1) \<Rightarrow>
             (if c_iflag tset AND IXON \<noteq> 0 \<and> c_iflag tset AND IXOFF \<noteq> 0 \<and>
                 CTRL_Q = c_cc tset VSTART \<and> CTRL_S = c_cc tset VSTOP
              then FLOW_CONTROL_SOFT
              else if \<not> (c_iflag tset AND IXON \<noteq> 0 \<or> c_iflag tset AND IXOFF \<noteq> 0)
              then (if c_cflag tset AND CRTSCTS \<noteq> 0 then FLOW_CONTROL_HARD
                    else FLOW_CONTROL_NONE)
              else FLOW_CONTROL_INVALID, k1)))"

definition SetFlowControl ::
  "Implementation \<Rightarrow> FlowControlEnum \<Rightarrow> kernel \<Rightarrow> FlowControlEnum \<times> kernel" where
  "SetFlowControl m flow_c k =
     (if -1 = mFileDescriptor m then (FLOW_CONTROL_INVALID, k)
      else
        (case sys_tcflush (mFileDescriptor m) TCIOFLUSH k of (r0, k0) \<Rightarrow>
           if -1 = r0 then (FLOW_CONTROL_INVALID, k0)
           else
             (case sys_tcgetattr (mFileDescriptor m) k0 of
                (None, k1) \<Rightarrow> (FLOW_CONTROL_INVALID, k1)
              | (Some tset, k1) \<Rightarrow>
                  let t1 =
                    (if FLOW_CONTROL_HARD = flow_c then
                       tset\<lparr>c_iflag := c_iflag tset AND NOT (IXON OR IXOFF),
                            c_cflag := c_cflag tset OR CRTSCTS,
                            c_cc := (c_cc tset)(VSTART := POSIX_VDISABLE, VSTOP := POSIX_VDISABLE)\<rparr>
                     else if FLOW_CONTROL_SOFT = flow_c then
                       tset\<lparr>c_iflag := c_iflag tset OR (IXON OR IXOFF),
                            c_cflag := c_cflag tset AND NOT CRTSCTS,
                            c_cc := (c_cc tset)(VSTART := CTRL_Q, VSTOP := CTRL_S)\<rparr>
                     else
                       tset\<lparr>c_iflag := c_iflag tset AND NOT (IXON OR IXOFF),
                            c_cflag := c_cflag tset AND NOT CRTSCTS\<rparr>)
                  in (case sys_tcsetattr (mFileDescriptor m) t1 k1 of (r, k2) \<Rightarrow>
                        if -1 = r then (FLOW_CONTROL_INVALID, k2) else GetFlowControl m k2))))"

subsection \<open>VMIN and VTIME\<close>

definition GetVMin :: "Implementation \<Rightarrow> kernel \<Rightarrow> int \<times> kernel" where
  "GetVMin m k =
     (if -1 = mFileDescriptor m then (-1, k)
      else
        (case sys_tcgetattr (mFileDescriptor m) k of
           (None, k1) \<Rightarrow> (-1, k1)
         | (Some term_setting, k1) \<Rightarrow> (uint (c_cc term_setting VMIN), k1)))"

definition SetVMin :: "Implementation \<Rightarrow> int \<Rightarrow> kernel \<Rightarrow> int \<times> kernel" where
  "SetVMin m vmin k =
     (if -1 = mFileDescriptor m then (-1, k)
      else if vmin < 0 \<or> vmin > 255 then (-1, k)
      else
        (case sys_tcgetattr (mFileDescriptor m) k of
           (None, k1) \<Rightarrow> (-1, k1)
         | (Some term_setting, k1) \<Rightarrow>
             let t1 = term_setting\<lparr>c_cc := (c_cc term_setting)(VMIN := word_of_int vmin)\<rparr>
             in (case sys_tcsetattr (mFileDescriptor m) t1 k1 of (r, k2) \<Rightarrow>
                   if -1 = r then (-1, k2) else (vmin, k2))))"

definition GetVTime :: "Implementation \<Rightarrow> kernel \<Rightarrow> int \<times> kernel" where
  "GetVTime m k =
     (if -1 = mFileDescriptor m then (-1, k)
      else
        (case sys_tcgetattr (mFileDescriptor m) k of
           (None, k1) \<Rightarrow> (-1, k1)
         | (Some term_setting, k1) \<Rightarrow> (uint (c_cc term_setting VTIME), k1)))"

definition SetVTime :: "Implementation \<Rightarrow> int \<Rightarrow> kernel \<Rightarrow> int \<times> kernel" where
  "SetVTime m vtime k =
     (if -1 = mFileDescriptor m then (-1, k)
      else if vtime < 0 \<or> vtime > 255 then (-1, k)
      else
        (case sys_tcgetattr (mFileDescriptor m) k of
           (None, k1) \<Rightarrow> (-1, k1)
         | (Some term_setting, k1) \<Rightarrow>
             let t1 = term_setting\<lparr>c_cc := (c_cc term_setting)(VTIME := word_of_int vtime)\<rparr>
             in (case sys_tcsetattr (mFileDescriptor m) t1 k1 of (r, k2) \<Rightarrow>
                   if -1 = r then (-1, k2) else (vtime, k2))))"

section \<open>Opening and closing\<close>

definition SetParametersToDefault :: "header \<Rightarrow> Implementation \<Rightarrow> kernel \<Rightarrow> int \<times> kernel" where
  "SetParametersToDefault h m k =
     (if -1 = mFileDescriptor m then (-1, k)
      else
        (case sys_tcgetattr (mFileDescriptor m) k of
           (None, k1) \<Rightarrow> (-1, k1)
         | (Some tio, k1) \<Rightarrow>
             let tio1 = tio\<lparr>c_iflag := IGNBRK, c_oflag := 0,
                            c_cflag := B19200 OR CS8 OR CLOCAL OR CREAD, c_lflag := 0,
                            c_line := 0, c_cc := (\<lambda>_. 0)(VTIME := 0, VMIN := 1)\<rparr>
             in (case sys_tcsetattr (mFileDescriptor m) tio1 k1 of (r, k2) \<Rightarrow>
                 if -1 = r then (-1, k2)
                 else
                   (case SetBaudRate h m (DEFAULT_BAUD h) k2 of (baud, k3) \<Rightarrow>
                    if BAUD_INVALID = baud then (-1, k3)
                    else
                      (case SetCharSize h m (DEFAULT_CHAR_SIZE h) k3 of (cs, k4) \<Rightarrow>
                       if CHAR_SIZE_INVALID = cs then (-1, k4)
                       else
                         (case SetNumOfStopBits m (DEFAULT_NO_OF_STOP_BITS h) k4 of (sb, k5) \<Rightarrow>
                          if -1 = sb then (-1, k5)
                          else
                            (case SetParity m (DEFAULT_PARITY h) k5 of (par, k6) \<Rightarrow>
                             if -1 = ParityEnum_value h par then (-1, k6)
                             else
                               (case SetFlowControl m (DEFAULT_FLOW_CONTROL h) k6 of (fc, k7) \<Rightarrow>
                                if -1 = FlowControlEnum_value h fc then (-1, k7)
                                else
                                  (case SetVMin m (DEFAULT_VMIN h) k7 of (vmin, k8) \<Rightarrow>
                                   if -1 = vmin then (-1, k8)
                                   else
                                     (case SetVTime m (DEFAULT_VTIME h) k8 of (vtime, k9) \<Rightarrow>
                                      if -1 = vtime then (-1, k9) else (0, k9)))))))))))"

definition InitializeSerialPort :: "header \<Rightarrow> Implementation \<Rightarrow> kernel \<Rightarrow> int \<times> kernel" where
  "InitializeSerialPort h m k =
     (if -1 = mFileDescriptor m then (-1, k)
      else
        (case sys_fcntl_getfl (mFileDescriptor m) k of (flags, k1) \<Rightarrow>
         case sys_fcntl_setfl (mFileDescriptor m) (flags OR O_NONBLOCK) k1 of (r1, k2) \<Rightarrow>
           if -1 = r1 then (-1, k2)
           else
             (case sys_tcflush (mFileDescriptor m) TCIOFLUSH k2 of (r2, k3) \<Rightarrow>
              if -1 = r2 then (-1, k3)
              else
                (case SetParametersToDefault h m k3 of (r3, k4) \<Rightarrow>
                 if -1 = r3 then (-1, k4)
                 else
                   (case sys_fcntl_getfl (mFileDescriptor m) k4 of (flags', k5) \<Rightarrow>
                    case sys_fcntl_setfl (mFileDescriptor m) (flags' AND NOT O_NONBLOCK) k5 of
                      (r4, k6) \<Rightarrow> if -1 = r4 then (-1, k6) else (0, k6))))))"

text \<open>
  \<^verbatim>\<open>std::ios_base::openmode\<close> is a bitmask; the two bits the code looks at have the
  values of libstdc++. \<^verbatim>\<open>open\<close> and \<^verbatim>\<open>close\<close> return \<^verbatim>\<open>this\<close> on success and a null
  pointer on failure: \<open>True\<close> is \<^verbatim>\<open>this\<close>.
\<close>

definition ios_in :: int where "ios_in = 8"
definition ios_out :: int where "ios_out = 16"

definition SerialStreamBuf_open ::
  "header \<Rightarrow> Implementation \<Rightarrow> string \<Rightarrow> int \<Rightarrow> kernel \<Rightarrow> bool \<times> Implementation \<times> kernel" where
  "SerialStreamBuf_open h m filename mode k =
     (if is_open m \<noteq> False then (False, m, k)
      else
        (case (if mode = (ios_in OR ios_out) then Some O_RDWR
               else if mode = ios_in then Some O_RDONLY
               else if mode = ios_out then Some O_WRONLY
               else None) of
           None \<Rightarrow> (False, m, k)
         | Some flags \<Rightarrow>
             (case sys_open filename (flags OR O_NOCTTY) k of (fd, k1) \<Rightarrow>
                let m1 = m\<lparr>mFileDescriptor := fd\<rparr>
                in if -1 = mFileDescriptor m1 then (False, m1, k1)
                   else
                     (case InitializeSerialPort h m1 k1 of (r, k2) \<Rightarrow>
                        if -1 = r then (False, m1, k2) else (True, m1, k2)))))"

definition SerialStreamBuf_close :: "Implementation \<Rightarrow> kernel \<Rightarrow> bool \<times> Implementation \<times> kernel" where
  "SerialStreamBuf_close m k =
     (if is_open m = False then (False, m, k)
      else
        (case sys_close (mFileDescriptor m) k of (r, k1) \<Rightarrow>
           if -1 = r then (False, m, k1)
           else (True, m\<lparr>mFileDescriptor := -1\<rparr>, k1)))"

section \<open>The serial port handle\<close>

text \<open>
  \<^verbatim>\<open>SerialPort::Implementation\<close> (\<^verbatim>\<open>SerialPort.cpp\<close>), the class behind the handle
  interface \<^verbatim>\<open>SerialPort\<close>, whose \<^verbatim>\<open>IsOpen\<close> and \<^verbatim>\<open>Close\<close> only forward to it;
  \<^verbatim>\<open>SerialPort::Open\<close> calls the \<^verbatim>\<open>Open\<close> of this class and then the five setters of
  the handle, which are outside this model. The record has its data members except
  the mutex. The descriptor member has the name of
  the stream buffer's member, so it carries a suffix here. A member function returns
  nothing or throws: its result is \<open>Inr ()\<close> or \<open>Inl\<close> of the exception, next to the
  members and the kernel as the call leaves them. The message of an exception is left
  out.
\<close>

datatype exception = NotOpen | AlreadyOpen | OpenFailed

record SerialPort_Implementation =
  mSerialPortName :: string
  mIsOpen :: bool
  mFileDescriptor_SP :: int
  mOldPortSettings :: termios
  mInputBuffer :: "8 word list"
  mShadowInputBuffer :: "8 word list"
  mIsQueueDataAvailable :: bool

text \<open>A structure with every byte 0: what \<^verbatim>\<open>bzero\<close> and the initialiser \<^verbatim>\<open>{}\<close> leave.\<close>

definition zeroed :: termios where
  "zeroed = \<lparr>c_iflag = 0, c_oflag = 0, c_cflag = 0, c_lflag = 0, c_line = 0,
             c_cc = (\<lambda>_. 0), c_ispeed = 0, c_ospeed = 0\<rparr>"

definition SerialPort_Implementation_new :: "string \<Rightarrow> SerialPort_Implementation" where
  "SerialPort_Implementation_new serialPortName =
     \<lparr>mSerialPortName = serialPortName, mIsOpen = False, mFileDescriptor_SP = -1,
      mOldPortSettings = zeroed, mInputBuffer = [], mShadowInputBuffer = [],
      mIsQueueDataAvailable = False\<rparr>"

text \<open>
  Modelled from the spec: the signal dispatcher \<^verbatim>\<open>PosixSignalDispatcher\<close>, whose
  source is not among the sources. The spec has it as the
  notification registration collaborator that offers
  \<^verbatim>\<open>AttachHandler(signalKind, handlerObject)\<close> and
  \<^verbatim>\<open>DetachHandler(signalKind, handlerObject)\<close>, with which the handle registers itself
  at open and deregisters at close; it names no failure of either. So both return, and
  the registrations of the handle are the list \<open>k_handlers\<close>.
\<close>

definition AttachHandler :: "int \<Rightarrow> kernel \<Rightarrow> kernel" where
  "AttachHandler posixSignalNumber k = k\<lparr>k_handlers := posixSignalNumber # k_handlers k\<rparr>"

definition DetachHandler :: "int \<Rightarrow> kernel \<Rightarrow> kernel" where
  "DetachHandler posixSignalNumber k =
     k\<lparr>k_handlers := remove1 posixSignalNumber (k_handlers k)\<rparr>"

definition SerialPort_IsOpen :: "SerialPort_Implementation \<Rightarrow> bool" where
  "SerialPort_IsOpen m = mIsOpen m"

text \<open>
  \<^verbatim>\<open>Open\<close> assigns \<^verbatim>\<open>mFileDescriptor\<close> first and \<^verbatim>\<open>mIsOpen\<close> last; \<^verbatim>\<open>tcgetattr\<close> fills
  the member \<^verbatim>\<open>mOldPortSettings\<close> itself. Every \<^verbatim>\<open>throw\<close> in between leaves the
  function with what was assigned until then.
\<close>

definition SerialPort_Open ::
  "SerialPort_Implementation \<Rightarrow> kernel
     \<Rightarrow> (exception + unit) \<times> SerialPort_Implementation \<times> kernel" where
  "SerialPort_Open m k =
     (if SerialPort_IsOpen m then (Inl AlreadyOpen, m, k)
      else
        (case sys_open (mSerialPortName m) (O_RDWR OR O_NOCTTY OR O_NONBLOCK) k of (fd, k1) \<Rightarrow>
         let m1 = m\<lparr>mFileDescriptor_SP := fd\<rparr>
         in if mFileDescriptor_SP m1 < 0 then (Inl OpenFailed, m1, k1)
            else
              (let k2 = AttachHandler SIGIO k1
               in case sys_fcntl_setown (mFileDescriptor_SP m1) (getpid k2) k2 of (r3, k3) \<Rightarrow>
                 if r3 < 0 then (Inl OpenFailed, m1, k3)
                 else
                   (case sys_fcntl_setfl (mFileDescriptor_SP m1) FASYNC k3 of (r4, k4) \<Rightarrow>
                    if r4 < 0 then (Inl OpenFailed, m1, k4)
                    else
                      (case sys_tcgetattr (mFileDescriptor_SP m1) k4 of
                         (None, k5) \<Rightarrow> (Inl OpenFailed, m1, k5)
                       | (Some old_settings, k5) \<Rightarrow>
                           let m2 = m1\<lparr>mOldPortSettings := old_settings\<rparr>;
                               p1 = zeroed\<lparr>c_cflag := c_cflag zeroed OR (CREAD OR CLOCAL)\<rparr>;
                               port_settings = p1\<lparr>c_cc := (c_cc p1)(VMIN := 0, VTIME := 0)\<rparr>
                           in (case sys_tcflush (mFileDescriptor_SP m2) TCIFLUSH k5 of (r6, k6) \<Rightarrow>
                               if r6 < 0 then (Inl OpenFailed, m2, k6)
                               else
                                 (case sys_tcsetattr (mFileDescriptor_SP m2) port_settings k6 of
                                    (r7, k7) \<Rightarrow>
                                      if r7 < 0 then (Inl OpenFailed, m2, k7)
                                      else (Inr (), m2\<lparr>mIsOpen := True,
                                                        mIsQueueDataAvailable := False\<rparr>, k7))))))))"

text \<open>
  \<^verbatim>\<open>Close\<close> looks at the result of neither \<^verbatim>\<open>tcsetattr\<close> nor \<^verbatim>\<open>close\<close>, and it
  leaves \<^verbatim>\<open>mFileDescriptor\<close> as it is.
\<close>

definition SerialPort_Close ::
  "SerialPort_Implementation \<Rightarrow> kernel
     \<Rightarrow> (exception + unit) \<times> SerialPort_Implementation \<times> kernel" where
  "SerialPort_Close m k =
     (if \<not> SerialPort_IsOpen m then (Inl NotOpen, m, k)
      else
        (let k1 = DetachHandler SIGIO k
         in case sys_tcsetattr (mFileDescriptor_SP m) (mOldPortSettings m) k1 of (r2, k2) \<Rightarrow>
            case sys_close (mFileDescriptor_SP m) k2 of (r3, k3) \<Rightarrow>
              (Inr (), m\<lparr>mIsOpen := False\<rparr>, k3)))"

section \<open>Concrete states for the examples\<close>

text \<open>
  One header the model can be run with: the enumerators of \<^verbatim>\<open>BaudRate\<close> and
  \<^verbatim>\<open>CharSize\<close> have the values of the termios constants of the same name, the two
  plain enumerations count from 0, and the defaults are 19200 baud, 8 bits, one stop
  bit, no parity, no flow control, \<^verbatim>\<open>VMIN\<close> 1 and \<^verbatim>\<open>VTIME\<close> 0. Then an attribute
  structure with everything cleared, and a kernel with an ideal driver, no failure
  ahead and nothing received. The general theorems hold for every header and every
  kernel; these values are for the runs on concrete inputs.
\<close>

definition example_BaudRate_value :: "BaudRate \<Rightarrow> speed_t" where
  "example_BaudRate_value b =
     (if b = BAUD_50 then B50 else if b = BAUD_75 then B75 else if b = BAUD_110 then B110
      else if b = BAUD_134 then B134 else if b = BAUD_150 then B150
      else if b = BAUD_200 then B200 else if b = BAUD_300 then B300
      else if b = BAUD_600 then B600 else if b = BAUD_1200 then B1200
      else if b = BAUD_1800 then B1800 else if b = BAUD_2400 then B2400
      else if b = BAUD_4800 then B4800 else if b = BAUD_9600 then B9600
      else if b = BAUD_19200 then B19200 else if b = BAUD_38400 then B38400
      else if b = BAUD_57600 then B57600 else if b = BAUD_115200 then B115200
      else 0xFFFFFFFF)"

definition example_CharSize_value :: "CharSize \<Rightarrow> tcflag_t" where
  "example_CharSize_value c =
     (case c of CHAR_SIZE_5 \<Rightarrow> CS5 | CHAR_SIZE_6 \<Rightarrow> CS6 | CHAR_SIZE_7 \<Rightarrow> CS7
      | CHAR_SIZE_8 \<Rightarrow> CS8 | CHAR_SIZE_INVALID \<Rightarrow> 0xFFFFFFFF)"

definition example_ParityEnum_value :: "ParityEnum \<Rightarrow> int" where
  "example_ParityEnum_value p =
     (case p of PARITY_EVEN \<Rightarrow> 0 | PARITY_ODD \<Rightarrow> 1 | PARITY_NONE \<Rightarrow> 2 | PARITY_INVALID \<Rightarrow> 3)"

definition example_FlowControlEnum_value :: "FlowControlEnum \<Rightarrow> int" where
  "example_FlowControlEnum_value f =
     (case f of FLOW_CONTROL_HARD \<Rightarrow> 0 | FLOW_CONTROL_SOFT \<Rightarrow> 1 | FLOW_CONTROL_NONE \<Rightarrow> 2
      | FLOW_CONTROL_INVALID \<Rightarrow> 3)"

definition example_header :: header where
  "example_header =
     \<lparr>BaudRate_value = example_BaudRate_value, CharSize_value = example_CharSize_value,
      ParityEnum_value = example_ParityEnum_value,
      FlowControlEnum_value = example_FlowControlEnum_value,
      DEFAULT_BAUD = BAUD_19200, DEFAULT_CHAR_SIZE = CHAR_SIZE_8,
      DEFAULT_NO_OF_STOP_BITS = 1, DEFAULT_PARITY = PARITY_NONE,
      DEFAULT_FLOW_CONTROL = FLOW_CONTROL_NONE, DEFAULT_VMIN = 1, DEFAULT_VTIME = 0\<rparr>"

definition termios0 :: termios where
  "termios0 = \<lparr>c_iflag = 0, c_oflag = 0, c_cflag = 0, c_lflag = 0, c_line = 0,
               c_cc = (\<lambda>_. 0), c_ispeed = 0, c_ospeed = 0\<rparr>"

definition kernel0 :: kernel where
  "kernel0 = \<lparr>k_attr = termios0, k_flags = O_RDWR, k_rx = [], k_fds = [],
              k_pid = 4711, k_owner = 0, k_handlers = [],
              k_faults = [], k_accept = (\<lambda>old new. new), k_trace = []\<rparr>"

text \<open>An open buffer on descriptor 3 with no putback byte, and one that holds \<open>0x41\<close>.\<close>

definition opened :: Implementation where
  "opened = \<lparr>mPutbackChar = 0, mPutbackAvailable = False, mFileDescriptor = 3\<rparr>"

definition opened_A :: Implementation where
  "opened_A = \<lparr>mPutbackChar = 0x41, mPutbackAvailable = True, mFileDescriptor = 3\<rparr>"

text \<open>
  A serial port handle as its constructor leaves it, and the handle after an \<^verbatim>\<open>Open\<close>
  on \<open>kernel0\<close>.
\<close>

definition port0 :: SerialPort_Implementation where
  "port0 = SerialPort_Implementation_new ''/dev/ttyS0''"

definition port_opened :: SerialPort_Implementation where
  "port_opened = port0\<lparr>mIsOpen := True, mFileDescriptor_SP := 3, mOldPortSettings := termios0\<rparr>"

text \<open>
  A driver that takes every change but one: it keeps the \<^verbatim>\<open>VMIN\<close> it has. And one
  that keeps its \<^verbatim>\<open>VTIME\<close>.
\<close>

definition sticky_VMIN :: "termios \<Rightarrow> termios \<Rightarrow> termios" where
  "sticky_VMIN old new = new\<lparr>c_cc := (c_cc new)(VMIN := c_cc old VMIN)\<rparr>"

definition sticky_VTIME :: "termios \<Rightarrow> termios \<Rightarrow> termios" where
  "sticky_VTIME old new = new\<lparr>c_cc := (c_cc new)(VTIME := c_cc old VTIME)\<rparr>"

text \<open>
  The structure that \<^verbatim>\<open>SetCharSize\<close> hands to \<^verbatim>\<open>tcsetattr\<close> when it has read \<open>t\<close>:
  its three assignments in one expression.
\<close>

definition SetCharSize_written :: "header \<Rightarrow> CharSize \<Rightarrow> termios \<Rightarrow> termios" where
  "SetCharSize_written h cs t =
     t\<lparr>c_iflag := (if cs = CHAR_SIZE_8 then c_iflag t AND NOT ISTRIP else c_iflag t OR ISTRIP),
       c_cflag := (c_cflag t AND NOT CSIZE) OR CharSize_value h cs\<rparr>"

section \<open>Facts about the traits, the array and the system calls\<close>

lemma to_int_type_not_eof: "to_int_type b \<noteq> traits_eof"
  unfolding to_int_type_def traits_eof_def using uint_ge_0 [of b] by arith

lemma to_char_type_to_int_type: "to_char_type (to_int_type b) = b"
  by (simp add: to_int_type_def to_char_type_def)

lemma poke_nth_before: "j < i \<Longrightarrow> poke s i bs ! j = s ! j"
  by (induction bs arbitrary: s i) auto

lemma calls_self: "calls k k = []"
  by (simp add: calls_def)

lemma calls_sys_read:
  "calls k (snd (snd (sys_read fd n k))) = [(Sys_read fd n, fst (sys_read fd n k))]"
  by (simp add: calls_def sys_read_def logged_def Let_def)

lemma sys_read_bounds:
  "0 < n \<Longrightarrow> -1 \<le> fst (sys_read fd n k) \<and> fst (sys_read fd n k) \<le> n"
  by (auto simp add: sys_read_def Let_def)

section \<open>Putback\<close>

text \<open>
  Claim C1, as amended. On an open buffer with no putback byte pending, \<^verbatim>\<open>pbackfail\<close> of
  a byte \<open>b\<close> (passed as \<^verbatim>\<open>int_type\<close>, so never the end-of-file marker) returns \<open>b\<close>
  and stores it; \<^verbatim>\<open>underflow\<close> then returns \<open>b\<close> without a system call and leaves
  the byte pending. On every buffer, \<^verbatim>\<open>pbackfail\<close> of any value while a putback byte
  is pending returns the end-of-file marker and changes nothing, and \<^verbatim>\<open>pbackfail\<close> of
  the end-of-file marker returns the end-of-file marker and changes nothing.
\<close>

theorem C1_putback_roundtrip:
  "(is_open m \<and> \<not> mPutbackAvailable m \<longrightarrow>
      pbackfail m (to_int_type b)
        = (to_int_type b, m\<lparr>mPutbackChar := b, mPutbackAvailable := True\<rparr>)
      \<and> underflow (m\<lparr>mPutbackChar := b, mPutbackAvailable := True\<rparr>) k
        = (to_int_type b, m\<lparr>mPutbackChar := b, mPutbackAvailable := True\<rparr>, k))
   \<and> (mPutbackAvailable m \<longrightarrow> pbackfail m c = (traits_eof, m))
   \<and> pbackfail m traits_eof = (traits_eof, m)
   \<and> to_int_type b \<noteq> traits_eof"
  by (simp add: pbackfail_def underflow_def is_open_def eq_int_type_def not_eof_def
      to_int_type_not_eof to_char_type_to_int_type)

text \<open>The theorem at descriptor 3 and the byte \<open>0x41\<close>: the first putback, and a second one.\<close>

theorem C1_putback_roundtrip_witness:
  "is_open opened \<and> \<not> mPutbackAvailable opened
   \<and> pbackfail opened 0x41 = (0x41, opened_A)
   \<and> underflow opened_A kernel0 = (0x41, opened_A, kernel0)
   \<and> mPutbackAvailable opened_A
   \<and> pbackfail opened_A 0x42 = (traits_eof, opened_A)
   \<and> pbackfail opened traits_eof = (traits_eof, opened)"
  using C1_putback_roundtrip [of opened "0x41" kernel0 "0x42"]
    C1_putback_roundtrip [of opened_A "0x41" kernel0 "0x42"]
  by (simp add: is_open_def opened_def opened_A_def to_int_type_def)

text \<open>
  Claim C1 as it is written does not ask for an open buffer. A buffer that was never
  opened has no putback byte pending, and \<^verbatim>\<open>pbackfail\<close> of \<open>0x41\<close> fails on it.
\<close>

theorem C1_counterexample:
  "\<not> mPutbackAvailable Implementation_new \<and> (0x41::int) \<noteq> traits_eof
   \<and> fst (pbackfail Implementation_new 0x41) = traits_eof
   \<and> fst (pbackfail Implementation_new 0x41) \<noteq> 0x41"
  by (simp add: pbackfail_def Implementation_new_def traits_eof_def)

section \<open>Reading many bytes\<close>

lemma xsgetn_closed: "\<not> is_open m \<or> n \<le> 0 \<Longrightarrow> xsgetn m s n k = (0, s, m, k)"
  by (auto simp add: xsgetn_def is_open_def)

lemma xsgetn_putback_one:
  "is_open m \<Longrightarrow> mPutbackAvailable m \<Longrightarrow>
   xsgetn m s 1 k = (1, s[0 := mPutbackChar m], m\<lparr>mPutbackAvailable := False\<rparr>, k)"
  by (simp add: xsgetn_def is_open_def Let_def)

lemma xsgetn_putback_more:
  "is_open m \<Longrightarrow> mPutbackAvailable m \<Longrightarrow> 1 < n \<Longrightarrow>
   xsgetn m s n k =
     (let rd = fst (sys_read (mFileDescriptor m) (n - 1) k)
      in (if rd = -1 then 0 else rd + 1,
          poke (s[0 := mPutbackChar m]) 1 (fst (snd (sys_read (mFileDescriptor m) (n - 1) k))),
          m\<lparr>mPutbackAvailable := False\<rparr>,
          snd (snd (sys_read (mFileDescriptor m) (n - 1) k))))"
  using sys_read_bounds [of "n - 1" "mFileDescriptor m" k]
  by (auto simp add: xsgetn_def is_open_def Let_def split: prod.splits)

lemma xsgetn_direct:
  "is_open m \<Longrightarrow> \<not> mPutbackAvailable m \<Longrightarrow> 0 < n \<Longrightarrow>
   xsgetn m s n k =
     (let rd = fst (sys_read (mFileDescriptor m) n k)
      in (if rd = -1 then 0 else rd,
          poke s 0 (fst (snd (sys_read (mFileDescriptor m) n k))),
          m, snd (snd (sys_read (mFileDescriptor m) n k))))"
  by (auto simp add: xsgetn_def is_open_def Let_def split: prod.splits)

text \<open>
  Claim C2, as amended. On an open buffer with \<open>0 < n\<close>: with a putback byte pending,
  the byte goes to \<open>s[0]\<close>, the flag is cleared, no \<^verbatim>\<open>read\<close> is made when \<open>n = 1\<close>
  (the result is 1) and exactly one \<^verbatim>\<open>read\<close> for \<open>n - 1\<close> bytes is made when
  \<open>1 < n\<close>; the result is then one more than what \<^verbatim>\<open>read\<close> returned (so 1 at end of
  file), and 0 when \<^verbatim>\<open>read\<close> returned -1. Without a putback byte exactly one
  \<^verbatim>\<open>read\<close> for \<open>n\<close> bytes is made, and the result is what it returned, or 0 when it
  returned -1. On a closed buffer or with \<open>n \<le> 0\<close> the result is 0 and nothing
  changes. The result is never negative and never more than \<open>n\<close>.
\<close>

theorem C2_xsgetn:
  assumes "xsgetn m s n k = (r, s', m', k')"
  shows "(is_open m \<and> 0 < n \<and> mPutbackAvailable m \<longrightarrow>
            (s \<noteq> [] \<longrightarrow> s' ! 0 = mPutbackChar m) \<and> \<not> mPutbackAvailable m' \<and>
            (n = 1 \<longrightarrow> calls k k' = [] \<and> r = 1) \<and>
            (1 < n \<longrightarrow>
               calls k k' = [(Sys_read (mFileDescriptor m) (n - 1),
                              fst (sys_read (mFileDescriptor m) (n - 1) k))] \<and>
               r = (if fst (sys_read (mFileDescriptor m) (n - 1) k) = -1 then 0
                    else fst (sys_read (mFileDescriptor m) (n - 1) k) + 1)))
       \<and> (is_open m \<and> 0 < n \<and> \<not> mPutbackAvailable m \<longrightarrow>
            m' = m \<and>
            calls k k' = [(Sys_read (mFileDescriptor m) n, fst (sys_read (mFileDescriptor m) n k))] \<and>
            r = (if fst (sys_read (mFileDescriptor m) n k) = -1 then 0
                 else fst (sys_read (mFileDescriptor m) n k)))
       \<and> (\<not> is_open m \<or> n \<le> 0 \<longrightarrow> r = 0 \<and> s' = s \<and> m' = m \<and> k' = k)
       \<and> 0 \<le> r \<and> r \<le> max n 0"
proof -
  have closed: "\<not> is_open m \<or> n \<le> 0 \<longrightarrow> r = 0 \<and> s' = s \<and> m' = m \<and> k' = k"
    using assms xsgetn_closed [of m n s k] by auto
  have direct: "is_open m \<and> 0 < n \<and> \<not> mPutbackAvailable m \<longrightarrow>
            m' = m \<and>
            calls k k' = [(Sys_read (mFileDescriptor m) n, fst (sys_read (mFileDescriptor m) n k))] \<and>
            r = (if fst (sys_read (mFileDescriptor m) n k) = -1 then 0
                 else fst (sys_read (mFileDescriptor m) n k))"
    using assms xsgetn_direct [of m n s k]
    by (auto simp add: Let_def calls_sys_read)
  have one: "is_open m \<and> mPutbackAvailable m \<and> n = 1 \<longrightarrow>
            (s \<noteq> [] \<longrightarrow> s' ! 0 = mPutbackChar m) \<and> \<not> mPutbackAvailable m' \<and>
            calls k k' = [] \<and> r = 1"
    using assms xsgetn_putback_one [of m s k]
    by (auto simp add: calls_self)
  have more: "is_open m \<and> mPutbackAvailable m \<and> 1 < n \<longrightarrow>
            (s \<noteq> [] \<longrightarrow> s' ! 0 = mPutbackChar m) \<and> \<not> mPutbackAvailable m' \<and>
               calls k k' = [(Sys_read (mFileDescriptor m) (n - 1),
                              fst (sys_read (mFileDescriptor m) (n - 1) k))] \<and>
               r = (if fst (sys_read (mFileDescriptor m) (n - 1) k) = -1 then 0
                    else fst (sys_read (mFileDescriptor m) (n - 1) k) + 1)"
    using assms xsgetn_putback_more [of m n s k]
    by (auto simp add: Let_def calls_sys_read poke_nth_before)
  have range: "0 \<le> r \<and> r \<le> max n 0"
  proof (cases "\<not> is_open m \<or> n \<le> 0")
    case True
    with closed show ?thesis by auto
  next
    case False
    then have pos: "is_open m" "0 < n" by auto
    show ?thesis
    proof (cases "mPutbackAvailable m")
      case False
      with pos direct sys_read_bounds [of n "mFileDescriptor m" k] show ?thesis
        by (auto split: if_splits)
    next
      case True
      show ?thesis
      proof (cases "n = 1")
        case True
        with pos \<open>mPutbackAvailable m\<close> one show ?thesis by auto
      next
        case False
        with pos have "1 < n" by auto
        with pos \<open>mPutbackAvailable m\<close> more sys_read_bounds [of "n - 1" "mFileDescriptor m" k]
        show ?thesis by (auto split: if_splits)
      qed
    qed
  qed
  from closed direct one more range show ?thesis
    by (cases "n = 1") auto
qed

text \<open>The theorem on a run that delivers the putback byte and two bytes of the line.\<close>

theorem C2_xsgetn_witness:
  "xsgetn opened_A [0, 0, 0] 3 (kernel0\<lparr>k_rx := [1, 2, 3]\<rparr>)
     = (3, [0x41, 1, 2], opened_A\<lparr>mPutbackAvailable := False\<rparr>,
        logged (Sys_read 3 2) 2 (kernel0\<lparr>k_rx := [3]\<rparr>))
   \<and> is_open opened_A \<and> mPutbackAvailable opened_A
   \<and> calls (kernel0\<lparr>k_rx := [1, 2, 3]\<rparr>) (logged (Sys_read 3 2) 2 (kernel0\<lparr>k_rx := [3]\<rparr>))
       = [(Sys_read 3 2, 2)]"
proof -
  have run: "xsgetn opened_A [0, 0, 0] 3 (kernel0\<lparr>k_rx := [1, 2, 3]\<rparr>)
     = (3, [0x41, 1, 2], opened_A\<lparr>mPutbackAvailable := False\<rparr>,
        logged (Sys_read 3 2) 2 (kernel0\<lparr>k_rx := [3]\<rparr>))"
    by (simp add: xsgetn_def opened_A_def kernel0_def is_open_def sys_read_def fault_def
        logged_def Let_def)
  from C2_xsgetn [OF run] run show ?thesis
    by (simp add: is_open_def opened_A_def sys_read_def fault_def kernel0_def Let_def)
qed

text \<open>
  Claim C2 as it is written says that the result is 0 whenever \<^verbatim>\<open>read\<close> reports end of
  file. With a putback byte pending and \<open>n = 2\<close>, \<^verbatim>\<open>read\<close> returns 0 and the result
  is 1.
\<close>

theorem C2_counterexample:
  "is_open opened_A \<and> mPutbackAvailable opened_A
   \<and> calls kernel0 (snd (snd (snd (xsgetn opened_A [0, 0] 2 kernel0)))) = [(Sys_read 3 1, 0)]
   \<and> fst (xsgetn opened_A [0, 0] 2 kernel0) = 1"
  by (simp add: xsgetn_def opened_A_def kernel0_def is_open_def sys_read_def fault_def
      logged_def calls_def Let_def)

text \<open>
  Claim C10. With a putback byte pending, \<open>1 < n\<close> and room in the array: when the
  \<^verbatim>\<open>read\<close> that \<^verbatim>\<open>xsgetn\<close> makes returns -1, \<^verbatim>\<open>xsgetn\<close> returns 0, yet the flag is
  cleared and the byte is in \<open>s[0]\<close>; the line still holds what it held, so the byte
  is neither pending nor to be read again.
\<close>

theorem C10_xsgetn_not_atomic:
  assumes "mPutbackAvailable m" and "1 < n" and "s \<noteq> []"
    and "xsgetn m s n k = (r, s', m', k')"
    and "(Sys_read (mFileDescriptor m) (n - 1), -1) \<in> set (calls k k')"
  shows "r = 0 \<and> \<not> mPutbackAvailable m' \<and> s' ! 0 = mPutbackChar m \<and> k_rx k' = k_rx k"
proof -
  have "is_open m"
  proof (rule ccontr)
    assume "\<not> is_open m"
    then have "xsgetn m s n k = (0, s, m, k)" by (simp add: xsgetn_closed)
    with assms(4) have "k' = k" by simp
    with assms(5) show False by (simp add: calls_self)
  qed
  note run = xsgetn_putback_more [OF \<open>is_open m\<close> assms(1) assms(2), of s k]
  from run assms(4) have k': "k' = snd (snd (sys_read (mFileDescriptor m) (n - 1) k))"
    by (simp add: Let_def)
  with assms(5) have failed: "fst (sys_read (mFileDescriptor m) (n - 1) k) = -1"
    by (simp add: calls_sys_read)
  then have "fault k"
    by (auto simp add: sys_read_def Let_def split: if_splits)
  then have "k_rx k' = k_rx k"
    by (simp add: k' sys_read_def logged_def)
  with run assms(3,4) failed show ?thesis
    by (auto simp add: Let_def poke_nth_before)
qed

text \<open>The theorem on a run whose \<^verbatim>\<open>read\<close> fails.\<close>

theorem C10_xsgetn_not_atomic_witness:
  "mPutbackAvailable opened_A \<and> (1::int) < 2
   \<and> xsgetn opened_A [0, 0] 2 (kernel0\<lparr>k_rx := [7], k_faults := [True]\<rparr>)
       = (0, [0x41, 0], opened_A\<lparr>mPutbackAvailable := False\<rparr>,
          logged (Sys_read 3 1) (-1) (kernel0\<lparr>k_rx := [7], k_faults := [True]\<rparr>))
   \<and> k_rx (logged (Sys_read 3 1) (-1) (kernel0\<lparr>k_rx := [7], k_faults := [True]\<rparr>)) = [7]"
proof -
  have run: "xsgetn opened_A [0, 0] 2 (kernel0\<lparr>k_rx := [7], k_faults := [True]\<rparr>)
       = (0, [0x41, 0], opened_A\<lparr>mPutbackAvailable := False\<rparr>,
          logged (Sys_read 3 1) (-1) (kernel0\<lparr>k_rx := [7], k_faults := [True]\<rparr>))"
    by (simp add: xsgetn_def opened_A_def kernel0_def is_open_def sys_read_def fault_def
        logged_def Let_def)
  have pending: "mPutbackAvailable opened_A" by (simp add: opened_A_def)
  have room: "[0, 0 :: 8 word] \<noteq> []" by simp
  have failed: "(Sys_read (mFileDescriptor opened_A) (2 - 1), -1)
      \<in> set (calls (kernel0\<lparr>k_rx := [7], k_faults := [True]\<rparr>)
                (logged (Sys_read 3 1) (-1) (kernel0\<lparr>k_rx := [7], k_faults := [True]\<rparr>)))"
    by (simp add: calls_def logged_def opened_A_def kernel0_def)
  from C10_xsgetn_not_atomic [OF pending _ room run failed] run pending show ?thesis
    by (simp add: logged_def kernel0_def)
qed

section \<open>Probing for a byte\<close>

lemma xsgetn_putback_first:
  assumes "is_open m" and "mPutbackAvailable m" and "0 < n" and "s \<noteq> []"
  shows "fst (snd (xsgetn m s n k)) ! 0 = mPutbackChar m"
proof (cases "n = 1")
  case True
  with assms show ?thesis by (simp add: xsgetn_putback_one)
next
  case False
  with assms have "1 < n" by simp
  with assms show ?thesis by (simp add: xsgetn_putback_more Let_def poke_nth_before)
qed

lemma underflow_pending:
  "is_open m \<Longrightarrow> mPutbackAvailable m \<Longrightarrow> underflow m k = (to_int_type (mPutbackChar m), m, k)"
  by (simp add: underflow_def is_open_def)

lemma showmanyc_closed: "\<not> is_open m \<Longrightarrow> showmanyc m k = (-1, m, k)"
  by (simp add: showmanyc_def is_open_def)

lemma showmanyc_pending:
  "is_open m \<Longrightarrow> mPutbackAvailable m \<Longrightarrow> showmanyc m k = (1, m, k)"
  by (simp add: showmanyc_def is_open_def)

lemma take_one: "take (Suc 0) xs = (case xs of [] \<Rightarrow> [] | x # _ \<Rightarrow> [x])"
  by (cases xs) simp_all

lemma drop_one: "drop (Suc 0) xs = tl xs"
  by (cases xs) simp_all

lemma showmanyc_probe:
  assumes "showmanyc m k = (r, m', k')" and "\<not> mPutbackAvailable m"
  shows "(m' = m \<and> k_rx k' = k_rx k \<and> (r = 0 \<or> r = -1))
       \<or> (is_open m \<and> k_rx k \<noteq> [] \<and> k_rx k' = tl (k_rx k)
           \<and> m' = m\<lparr>mPutbackChar := hd (k_rx k), mPutbackAvailable := True\<rparr>
           \<and> (r = 1 \<or> r = -1 \<and> snd (last (calls k k')) = -1))"
proof (cases "is_open m")
  case False
  with assms show ?thesis by (simp add: showmanyc_closed)
next
  case True
  with assms show ?thesis
    by (cases "k_rx k")
       (auto simp add: showmanyc_def is_open_def sys_fcntl_getfl_def sys_fcntl_setfl_def
          sys_read_def logged_def calls_def Let_def take_one drop_one
          split: if_splits)
qed

text \<open>
  Claim C9, as amended. With no putback byte pending: when \<^verbatim>\<open>showmanyc\<close> returns 1,
  the byte its probe took off the line is in the putback cell and the flag is set, so
  \<^verbatim>\<open>underflow\<close> returns that byte and \<^verbatim>\<open>xsgetn\<close> puts it at \<open>s[0]\<close>; when it
  returns 0, the members and the line are unchanged; when it returns -1, either the
  members and the line are unchanged, or the probe had taken a byte and that byte is
  pending in the putback cell. With a putback byte pending nothing changes. In every
  case a byte that left the line is in the putback cell.
\<close>

theorem C9_showmanyc:
  assumes "showmanyc m k = (r, m', k')"
  shows "(\<not> mPutbackAvailable m \<and> r = 1 \<longrightarrow>
            mPutbackAvailable m' \<and> k_rx k = mPutbackChar m' # k_rx k'
            \<and> underflow m' k2 = (to_int_type (mPutbackChar m'), m', k2)
            \<and> (0 < n \<and> s \<noteq> [] \<longrightarrow> fst (snd (xsgetn m' s n k2)) ! 0 = mPutbackChar m'))
       \<and> (\<not> mPutbackAvailable m \<and> r = 0 \<longrightarrow> m' = m \<and> k_rx k' = k_rx k)
       \<and> (\<not> mPutbackAvailable m \<and> r = -1 \<longrightarrow>
            m' = m \<and> k_rx k' = k_rx k
            \<or> mPutbackAvailable m' \<and> k_rx k = mPutbackChar m' # k_rx k')
       \<and> (mPutbackAvailable m \<longrightarrow> m' = m \<and> k' = k \<and> (r = 1 \<or> r = -1 \<and> \<not> is_open m))
       \<and> (r = 1 \<or> r = 0 \<or> r = -1)"
proof (cases "mPutbackAvailable m")
  case True
  with assms showmanyc_closed [of m k] showmanyc_pending [of m k] show ?thesis
    by (cases "is_open m") auto
next
  case False
  from showmanyc_probe [OF assms False] show ?thesis
  proof
    assume "m' = m \<and> k_rx k' = k_rx k \<and> (r = 0 \<or> r = -1)"
    with False show ?thesis by auto
  next
    assume got: "is_open m \<and> k_rx k \<noteq> [] \<and> k_rx k' = tl (k_rx k)
           \<and> m' = m\<lparr>mPutbackChar := hd (k_rx k), mPutbackAvailable := True\<rparr>
           \<and> (r = 1 \<or> r = -1 \<and> snd (last (calls k k')) = -1)"
    then have open': "is_open m'" and pending': "mPutbackAvailable m'"
      by (simp_all add: is_open_def)
    from got have rx: "k_rx k = mPutbackChar m' # k_rx k'"
      by (cases "k_rx k") simp_all
    from got False rx pending' underflow_pending [OF open' pending', of k2]
      xsgetn_putback_first [OF open' pending', of n s k2]
    show ?thesis by auto
  qed
qed

text \<open>The theorem on a line that holds two bytes.\<close>

theorem C9_showmanyc_witness:
  "showmanyc opened (kernel0\<lparr>k_rx := [7, 8]\<rparr>)
     = (1, opened\<lparr>mPutbackChar := 7, mPutbackAvailable := True\<rparr>,
        snd (snd (showmanyc opened (kernel0\<lparr>k_rx := [7, 8]\<rparr>))))
   \<and> \<not> mPutbackAvailable opened
   \<and> k_rx (snd (snd (showmanyc opened (kernel0\<lparr>k_rx := [7, 8]\<rparr>)))) = [8]
   \<and> underflow (opened\<lparr>mPutbackChar := 7, mPutbackAvailable := True\<rparr>) kernel0
       = (7, opened\<lparr>mPutbackChar := 7, mPutbackAvailable := True\<rparr>, kernel0)
   \<and> fst (snd (xsgetn (opened\<lparr>mPutbackChar := 7, mPutbackAvailable := True\<rparr>) [0] 1 kernel0)) ! 0 = 7"
proof -
  have run: "showmanyc opened (kernel0\<lparr>k_rx := [7, 8]\<rparr>)
     = (1, opened\<lparr>mPutbackChar := 7, mPutbackAvailable := True\<rparr>,
        snd (snd (showmanyc opened (kernel0\<lparr>k_rx := [7, 8]\<rparr>))))"
    by (simp add: showmanyc_def opened_def kernel0_def sys_fcntl_getfl_def sys_fcntl_setfl_def
        sys_read_def fault_def logged_def Let_def)
  have rx: "k_rx (snd (snd (showmanyc opened (kernel0\<lparr>k_rx := [7, 8]\<rparr>)))) = [8]"
    by (simp add: showmanyc_def opened_def kernel0_def sys_fcntl_getfl_def sys_fcntl_setfl_def
        sys_read_def fault_def logged_def Let_def)
  from C9_showmanyc [OF run, of kernel0 1 "[0]"] run rx show ?thesis
    by (simp add: opened_def to_int_type_def)
qed

text \<open>
  Claim C9 as it is written says that the putback state is unchanged whenever the
  result is -1. The probe takes the byte 7, then the \<^verbatim>\<open>fcntl\<close> that restores the
  blocking mode fails: the result is -1 and the byte is pending.
\<close>

theorem C9_counterexample:
  "fst (showmanyc opened (kernel0\<lparr>k_rx := [7], k_faults := [False, False, False, True]\<rparr>)) = -1
   \<and> \<not> mPutbackAvailable opened \<and> mPutbackChar opened = 0
   \<and> mPutbackAvailable
        (fst (snd (showmanyc opened (kernel0\<lparr>k_rx := [7], k_faults := [False, False, False, True]\<rparr>))))
   \<and> mPutbackChar
        (fst (snd (showmanyc opened (kernel0\<lparr>k_rx := [7], k_faults := [False, False, False, True]\<rparr>)))) = 7"
  by (simp add: showmanyc_def opened_def kernel0_def sys_fcntl_getfl_def sys_fcntl_setfl_def
      sys_read_def fault_def logged_def Let_def)

section \<open>Configuration\<close>

lemma k_attr_logged [simp]: "k_attr (logged c r k) = k_attr k"
  by (simp add: logged_def)

lemma k_trace_logged [simp]: "k_trace (logged c r k) = k_trace k @ [(c, r)]"
  by (simp add: logged_def)

lemma sys_tcgetattr_ok:
  "\<not> fault k \<Longrightarrow> sys_tcgetattr fd k = (Some (k_attr k), logged (Sys_tcgetattr fd) 0 k)"
  by (simp add: sys_tcgetattr_def)

lemma sys_tcgetattr_fault:
  "fault k \<Longrightarrow> sys_tcgetattr fd k = (None, logged (Sys_tcgetattr fd) (-1) k)"
  by (simp add: sys_tcgetattr_def)

text \<open>
  Claim C4. On an open buffer, with \<open>tset\<close> the attributes that its \<^verbatim>\<open>tcgetattr\<close>
  delivers, \<^verbatim>\<open>GetFlowControl\<close> returns \<open>FLOW_CONTROL_SOFT\<close> exactly when \<^verbatim>\<open>IXON\<close>
  and \<^verbatim>\<open>IXOFF\<close> are both set and the start and stop characters are \<open>0x11\<close> (^Q)
  and \<open>0x13\<close> (^S); \<open>FLOW_CONTROL_HARD\<close> exactly
  when neither flag is set and \<^verbatim>\<open>CRTSCTS\<close> is set; \<open>FLOW_CONTROL_NONE\<close> exactly when
  none of the three is set; and \<open>FLOW_CONTROL_INVALID\<close> for every other combination,
  that is, when one of the two flags is set and the first case does not apply.
\<close>

theorem C4_GetFlowControl:
  assumes "is_open m" and "fst (sys_tcgetattr (mFileDescriptor m) k) = Some tset"
  shows "(fst (GetFlowControl m k) = FLOW_CONTROL_SOFT \<longleftrightarrow>
            c_iflag tset AND IXON \<noteq> 0 \<and> c_iflag tset AND IXOFF \<noteq> 0
            \<and> c_cc tset VSTART = 0x11 \<and> c_cc tset VSTOP = 0x13)
       \<and> (fst (GetFlowControl m k) = FLOW_CONTROL_HARD \<longleftrightarrow>
            c_iflag tset AND IXON = 0 \<and> c_iflag tset AND IXOFF = 0
            \<and> c_cflag tset AND CRTSCTS \<noteq> 0)
       \<and> (fst (GetFlowControl m k) = FLOW_CONTROL_NONE \<longleftrightarrow>
            c_iflag tset AND IXON = 0 \<and> c_iflag tset AND IXOFF = 0
            \<and> c_cflag tset AND CRTSCTS = 0)
       \<and> (fst (GetFlowControl m k) = FLOW_CONTROL_INVALID \<longleftrightarrow>
            (c_iflag tset AND IXON \<noteq> 0 \<or> c_iflag tset AND IXOFF \<noteq> 0)
            \<and> \<not> (c_iflag tset AND IXON \<noteq> 0 \<and> c_iflag tset AND IXOFF \<noteq> 0
                   \<and> c_cc tset VSTART = 0x11 \<and> c_cc tset VSTOP = 0x13))"
proof -
  from assms(2) have "\<not> fault k" and "tset = k_attr k"
    by (auto simp add: sys_tcgetattr_def split: if_splits)
  with assms(1) show ?thesis
    by (auto simp add: GetFlowControl_def is_open_def sys_tcgetattr_ok CTRL_Q_def CTRL_S_def)
qed

text \<open>The theorem on one snapshot for each of the four answers.\<close>

theorem C4_GetFlowControl_witness:
  "is_open opened
   \<and> fst (sys_tcgetattr 3 (kernel0\<lparr>k_attr := termios0\<lparr>c_iflag := IXON OR IXOFF,
                     c_cc := (\<lambda>_. 0)(VSTART := 0x11, VSTOP := 0x13)\<rparr>\<rparr>))
       = Some (termios0\<lparr>c_iflag := IXON OR IXOFF,
                     c_cc := (\<lambda>_. 0)(VSTART := 0x11, VSTOP := 0x13)\<rparr>)
   \<and> fst (GetFlowControl opened (kernel0\<lparr>k_attr := termios0\<lparr>c_iflag := IXON OR IXOFF,
                     c_cc := (\<lambda>_. 0)(VSTART := 0x11, VSTOP := 0x13)\<rparr>\<rparr>)) = FLOW_CONTROL_SOFT
   \<and> fst (GetFlowControl opened (kernel0\<lparr>k_attr := termios0\<lparr>c_iflag := IXON,
                     c_cc := (\<lambda>_. 0)(VSTART := 0x11, VSTOP := 0x13)\<rparr>\<rparr>)) = FLOW_CONTROL_INVALID
   \<and> fst (GetFlowControl opened (kernel0\<lparr>k_attr := termios0\<lparr>c_cflag := CRTSCTS\<rparr>\<rparr>))
       = FLOW_CONTROL_HARD
   \<and> fst (GetFlowControl opened (kernel0\<lparr>k_attr := termios0\<rparr>)) = FLOW_CONTROL_NONE"
proof -
  have o: "is_open opened" by (simp add: is_open_def opened_def)
  have g: "fst (sys_tcgetattr (mFileDescriptor opened) (kernel0\<lparr>k_attr := t\<rparr>)) = Some t" for t
    by (simp add: sys_tcgetattr_def fault_def kernel0_def)
  from C4_GetFlowControl [OF o g, of "termios0\<lparr>c_iflag := IXON OR IXOFF,
                     c_cc := (\<lambda>_. 0)(VSTART := 0x11, VSTOP := 0x13)\<rparr>"]
    C4_GetFlowControl [OF o g, of "termios0\<lparr>c_iflag := IXON,
                     c_cc := (\<lambda>_. 0)(VSTART := 0x11, VSTOP := 0x13)\<rparr>"]
    C4_GetFlowControl [OF o g, of "termios0\<lparr>c_cflag := CRTSCTS\<rparr>"]
    C4_GetFlowControl [OF o g, of termios0] o
    g [of "termios0\<lparr>c_iflag := IXON OR IXOFF,
                     c_cc := (\<lambda>_. 0)(VSTART := 0x11, VSTOP := 0x13)\<rparr>"]
  show ?thesis
    by (simp add: termios0_def opened_def IXON_def IXOFF_def CRTSCTS_def VSTART_def VSTOP_def)
qed

lemma k_trace_GetCharSize:
  "is_open m \<Longrightarrow>
   k_trace (snd (GetCharSize m k))
     = k_trace k @ [(Sys_tcgetattr (mFileDescriptor m), if fault k then -1 else 0)]"
  by (simp add: GetCharSize_def is_open_def sys_tcgetattr_def Let_def)
lemma istrip_cleared: "(x AND NOT ISTRIP) AND ISTRIP = 0"
  by (simp add: word_bw_assocs)

lemma istrip_set: "(x OR ISTRIP) AND ISTRIP \<noteq> 0"
proof -
  have "(x OR ISTRIP) AND ISTRIP = ISTRIP"
    by (auto simp add: bit_eq_iff bit_and_iff bit_or_iff)
  then show ?thesis by (simp add: ISTRIP_def)
qed

lemma ISTRIP_nonzero: "ISTRIP \<noteq> 0"
  by (simp add: ISTRIP_def)

lemma csize_field: "((x AND NOT CSIZE) OR v) AND CSIZE = v AND CSIZE"
  by (auto simp add: bit_eq_iff bit_and_iff bit_or_iff bit_not_iff)

lemma SetCharSize_calls:
  assumes "is_open m" and "\<not> fault k" and "cs \<noteq> CHAR_SIZE_INVALID"
  shows "map fst (take 2 (calls k (snd (SetCharSize h m cs k))))
     = [Sys_tcgetattr (mFileDescriptor m),
        Sys_tcsetattr (mFileDescriptor m) (SetCharSize_written h cs (k_attr k))]"
proof -
  let ?fd = "mFileDescriptor m"
  let ?k1 = "logged (Sys_tcgetattr ?fd) 0 k"
  let ?t = "SetCharSize_written h cs (k_attr k)"
  have member: "cs \<in> set [CHAR_SIZE_5, CHAR_SIZE_6, CHAR_SIZE_7, CHAR_SIZE_8]"
    using assms(3) by (cases cs) simp_all
  have body: "SetCharSize h m cs k =
      (case sys_tcsetattr ?fd ?t ?k1 of (r, k2) \<Rightarrow>
         if -1 = r then (CHAR_SIZE_INVALID, k2) else GetCharSize m k2)"
    using assms(1,2) member
    by (simp add: SetCharSize_def is_open_def sys_tcgetattr_ok SetCharSize_written_def Let_def)
  show ?thesis
  proof (cases "fault ?k1")
    case True
    then have "SetCharSize h m cs k = (CHAR_SIZE_INVALID, logged (Sys_tcsetattr ?fd ?t) (-1) ?k1)"
      by (simp add: body sys_tcsetattr_def)
    then show ?thesis by (simp add: calls_def)
  next
    case False
    then have "SetCharSize h m cs k
        = GetCharSize m (logged (Sys_tcsetattr ?fd ?t) 0 (?k1\<lparr>k_attr := k_accept ?k1 (k_attr ?k1) ?t\<rparr>))"
      by (simp add: body sys_tcsetattr_def)
    then show ?thesis
      using assms(1) by (simp add: calls_def k_trace_GetCharSize)
  qed
qed

lemma failing_0: "failing 0 k = fault k"
  by (cases "k_faults k") (simp_all add: failing_def fault_def)

lemma failing_logged [simp]: "failing n (logged c r k) = failing (Suc n) k"
  by (cases "k_faults k") (simp_all add: failing_def logged_def)

lemma failing_attr [simp]: "failing n (k\<lparr>k_attr := a\<rparr>) = failing n k"
  by (simp add: failing_def)

lemma k_accept_logged [simp]: "k_accept (logged c r k) = k_accept k"
  by (simp add: logged_def)

lemma GetCharSize_ok:
  "is_open m \<Longrightarrow> \<not> fault k \<Longrightarrow>
   GetCharSize m k =
     (if c_cflag (k_attr k) AND CSIZE = CS5 then CHAR_SIZE_5
      else if c_cflag (k_attr k) AND CSIZE = CS6 then CHAR_SIZE_6
      else if c_cflag (k_attr k) AND CSIZE = CS7 then CHAR_SIZE_7
      else if c_cflag (k_attr k) AND CSIZE = CS8 then CHAR_SIZE_8
      else CHAR_SIZE_INVALID, logged (Sys_tcgetattr (mFileDescriptor m)) 0 k)"
  by (simp add: GetCharSize_def is_open_def sys_tcgetattr_ok Let_def)

lemma SetCharSize_run:
  assumes "is_open m" and "cs \<in> set [CHAR_SIZE_5, CHAR_SIZE_6, CHAR_SIZE_7, CHAR_SIZE_8]"
    and "\<not> failing 0 k" and "\<not> failing 1 k" and "\<not> failing 2 k"
  shows "SetCharSize h m cs k =
     (let A = k_accept k (k_attr k) (SetCharSize_written h cs (k_attr k)) in
      (if c_cflag A AND CSIZE = CS5 then CHAR_SIZE_5
       else if c_cflag A AND CSIZE = CS6 then CHAR_SIZE_6
       else if c_cflag A AND CSIZE = CS7 then CHAR_SIZE_7
       else if c_cflag A AND CSIZE = CS8 then CHAR_SIZE_8
       else CHAR_SIZE_INVALID,
       logged (Sys_tcgetattr (mFileDescriptor m)) 0
         (logged (Sys_tcsetattr (mFileDescriptor m) (SetCharSize_written h cs (k_attr k))) 0
           ((logged (Sys_tcgetattr (mFileDescriptor m)) 0 k)\<lparr>k_attr := A\<rparr>))))"
proof -
  let ?fd = "mFileDescriptor m"
  let ?W = "SetCharSize_written h cs (k_attr k)"
  let ?k1 = "logged (Sys_tcgetattr ?fd) 0 k"
  let ?A = "k_accept k (k_attr k) ?W"
  let ?k2 = "logged (Sys_tcsetattr ?fd ?W) 0 (?k1\<lparr>k_attr := ?A\<rparr>)"
  have f0: "\<not> fault k" using assms(3) by (simp add: failing_0)
  have f1: "\<not> fault ?k1" using assms(4) by (simp add: failing_0 [symmetric])
  have f2: "\<not> fault ?k2" using assms(5) by (simp add: failing_0 [symmetric] numeral_2_eq_2)
  have body: "SetCharSize h m cs k =
      (case sys_tcsetattr ?fd ?W ?k1 of (r, k2) \<Rightarrow>
         if -1 = r then (CHAR_SIZE_INVALID, k2) else GetCharSize m k2)"
    using assms(1,2) f0
    by (simp add: SetCharSize_def is_open_def sys_tcgetattr_ok SetCharSize_written_def Let_def)
  have "SetCharSize h m cs k = GetCharSize m ?k2"
    using f1 by (simp add: body sys_tcsetattr_def)
  then show ?thesis
    using GetCharSize_ok [OF assms(1) f2] by (simp add: Let_def)
qed

text \<open>
  Claim C5. On an open buffer, \<^verbatim>\<open>SetCharSize\<close> of one of the four sizes reads the
  attributes and hands \<^verbatim>\<open>tcsetattr\<close> the structure it read with the size bits
  cleared and the bits of the requested size set, and with \<^verbatim>\<open>ISTRIP\<close> cleared when
  the size is 8 and set otherwise: in what is written, the size field is the
  requested one and \<^verbatim>\<open>ISTRIP\<close> is clear exactly for size 8. When none of its three
  calls fails, these are a \<^verbatim>\<open>tcgetattr\<close>, the \<^verbatim>\<open>tcsetattr\<close> and a second
  \<^verbatim>\<open>tcgetattr\<close>; the line then has what the driver made of the written structure,
  and the result is the size read from the line. When the attributes cannot be read,
  it returns \<open>CHAR_SIZE_INVALID\<close> after that one call; when they cannot be written,
  it returns \<open>CHAR_SIZE_INVALID\<close> after the two calls and the line is as it was. For
  any other value it returns \<open>CHAR_SIZE_INVALID\<close> and makes no system call.
\<close>

theorem C5_SetCharSize:
  assumes "is_open m"
  shows "(cs \<in> set [CHAR_SIZE_5, CHAR_SIZE_6, CHAR_SIZE_7, CHAR_SIZE_8]
          \<and> \<not> failing 0 k \<and> \<not> failing 1 k \<and> \<not> failing 2 k \<longrightarrow>
            calls k (snd (SetCharSize h m cs k))
              = [(Sys_tcgetattr (mFileDescriptor m), 0),
                 (Sys_tcsetattr (mFileDescriptor m)
                   ((k_attr k)\<lparr>c_iflag := (if cs = CHAR_SIZE_8
                                            then c_iflag (k_attr k) AND NOT ISTRIP
                                            else c_iflag (k_attr k) OR ISTRIP),
                              c_cflag := (c_cflag (k_attr k) AND NOT CSIZE)
                                         OR CharSize_value h cs\<rparr>), 0),
                 (Sys_tcgetattr (mFileDescriptor m), 0)]
            \<and> k_attr (snd (SetCharSize h m cs k))
              = k_accept k (k_attr k)
                   ((k_attr k)\<lparr>c_iflag := (if cs = CHAR_SIZE_8
                                            then c_iflag (k_attr k) AND NOT ISTRIP
                                            else c_iflag (k_attr k) OR ISTRIP),
                              c_cflag := (c_cflag (k_attr k) AND NOT CSIZE)
                                         OR CharSize_value h cs\<rparr>)
            \<and> fst (SetCharSize h m cs k)
              = (if c_cflag (k_accept k (k_attr k)
                   ((k_attr k)\<lparr>c_iflag := (if cs = CHAR_SIZE_8
                                            then c_iflag (k_attr k) AND NOT ISTRIP
                                            else c_iflag (k_attr k) OR ISTRIP),
                              c_cflag := (c_cflag (k_attr k) AND NOT CSIZE)
                                         OR CharSize_value h cs\<rparr>)) AND CSIZE = CS5 then CHAR_SIZE_5
                else if c_cflag (k_accept k (k_attr k)
                   ((k_attr k)\<lparr>c_iflag := (if cs = CHAR_SIZE_8
                                            then c_iflag (k_attr k) AND NOT ISTRIP
                                            else c_iflag (k_attr k) OR ISTRIP),
                              c_cflag := (c_cflag (k_attr k) AND NOT CSIZE)
                                         OR CharSize_value h cs\<rparr>)) AND CSIZE = CS6 then CHAR_SIZE_6
                else if c_cflag (k_accept k (k_attr k)
                   ((k_attr k)\<lparr>c_iflag := (if cs = CHAR_SIZE_8
                                            then c_iflag (k_attr k) AND NOT ISTRIP
                                            else c_iflag (k_attr k) OR ISTRIP),
                              c_cflag := (c_cflag (k_attr k) AND NOT CSIZE)
                                         OR CharSize_value h cs\<rparr>)) AND CSIZE = CS7 then CHAR_SIZE_7
                else if c_cflag (k_accept k (k_attr k)
                   ((k_attr k)\<lparr>c_iflag := (if cs = CHAR_SIZE_8
                                            then c_iflag (k_attr k) AND NOT ISTRIP
                                            else c_iflag (k_attr k) OR ISTRIP),
                              c_cflag := (c_cflag (k_attr k) AND NOT CSIZE)
                                         OR CharSize_value h cs\<rparr>)) AND CSIZE = CS8 then CHAR_SIZE_8
                else CHAR_SIZE_INVALID))
       \<and> (cs \<in> set [CHAR_SIZE_5, CHAR_SIZE_6, CHAR_SIZE_7, CHAR_SIZE_8] \<and> \<not> fault k \<longrightarrow>
            map fst (take 2 (calls k (snd (SetCharSize h m cs k))))
              = [Sys_tcgetattr (mFileDescriptor m),
                 Sys_tcsetattr (mFileDescriptor m)
                   ((k_attr k)\<lparr>c_iflag := (if cs = CHAR_SIZE_8
                                            then c_iflag (k_attr k) AND NOT ISTRIP
                                            else c_iflag (k_attr k) OR ISTRIP),
                              c_cflag := (c_cflag (k_attr k) AND NOT CSIZE)
                                         OR CharSize_value h cs\<rparr>)])
       \<and> (cs \<in> set [CHAR_SIZE_5, CHAR_SIZE_6, CHAR_SIZE_7, CHAR_SIZE_8] \<and> fault k \<longrightarrow>
            SetCharSize h m cs k
              = (CHAR_SIZE_INVALID, logged (Sys_tcgetattr (mFileDescriptor m)) (-1) k))
       \<and> (cs \<in> set [CHAR_SIZE_5, CHAR_SIZE_6, CHAR_SIZE_7, CHAR_SIZE_8]
          \<and> \<not> failing 0 k \<and> failing 1 k \<longrightarrow>
            SetCharSize h m cs k
              = (CHAR_SIZE_INVALID,
                 logged (Sys_tcsetattr (mFileDescriptor m)
                   ((k_attr k)\<lparr>c_iflag := (if cs = CHAR_SIZE_8
                                            then c_iflag (k_attr k) AND NOT ISTRIP
                                            else c_iflag (k_attr k) OR ISTRIP),
                              c_cflag := (c_cflag (k_attr k) AND NOT CSIZE)
                                         OR CharSize_value h cs\<rparr>)) (-1)
                   (logged (Sys_tcgetattr (mFileDescriptor m)) 0 k)))
       \<and> ((c_cflag (k_attr k) AND NOT CSIZE) OR CharSize_value h cs) AND CSIZE
            = CharSize_value h cs AND CSIZE
       \<and> ((if cs = CHAR_SIZE_8 then c_iflag (k_attr k) AND NOT ISTRIP
            else c_iflag (k_attr k) OR ISTRIP) AND ISTRIP = 0 \<longleftrightarrow> cs = CHAR_SIZE_8)
       \<and> (cs \<notin> set [CHAR_SIZE_5, CHAR_SIZE_6, CHAR_SIZE_7, CHAR_SIZE_8] \<longrightarrow>
            SetCharSize h m cs k = (CHAR_SIZE_INVALID, k))"
proof -
  have unread: "SetCharSize h m cs k
      = (CHAR_SIZE_INVALID, logged (Sys_tcgetattr (mFileDescriptor m)) (-1) k)"
    if "cs \<in> set [CHAR_SIZE_5, CHAR_SIZE_6, CHAR_SIZE_7, CHAR_SIZE_8]" and "fault k"
    using that assms by (simp add: SetCharSize_def is_open_def sys_tcgetattr_fault)
  have other: "SetCharSize h m cs k = (CHAR_SIZE_INVALID, k)"
    if "cs \<notin> set [CHAR_SIZE_5, CHAR_SIZE_6, CHAR_SIZE_7, CHAR_SIZE_8]"
    using that by (simp add: SetCharSize_def)
  have bits: "((c_cflag (k_attr k) AND NOT CSIZE) OR CharSize_value h cs) AND CSIZE
            = CharSize_value h cs AND CSIZE
       \<and> ((if cs = CHAR_SIZE_8 then c_iflag (k_attr k) AND NOT ISTRIP
            else c_iflag (k_attr k) OR ISTRIP) AND ISTRIP = 0 \<longleftrightarrow> cs = CHAR_SIZE_8)"
    by (simp add: csize_field istrip_cleared istrip_set ISTRIP_nonzero)
  have written: "map fst (take 2 (calls k (snd (SetCharSize h m cs k))))
              = [Sys_tcgetattr (mFileDescriptor m),
                 Sys_tcsetattr (mFileDescriptor m)
                   ((k_attr k)\<lparr>c_iflag := (if cs = CHAR_SIZE_8
                                            then c_iflag (k_attr k) AND NOT ISTRIP
                                            else c_iflag (k_attr k) OR ISTRIP),
                              c_cflag := (c_cflag (k_attr k) AND NOT CSIZE)
                                         OR CharSize_value h cs\<rparr>)]"
    if "cs \<in> set [CHAR_SIZE_5, CHAR_SIZE_6, CHAR_SIZE_7, CHAR_SIZE_8]" and "\<not> fault k"
  proof -
    from that(1) have "cs \<noteq> CHAR_SIZE_INVALID" by auto
    from SetCharSize_calls [OF assms that(2) this, of h] show ?thesis
      by (simp add: SetCharSize_written_def)
  qed
  have run: "calls k (snd (SetCharSize h m cs k))
              = [(Sys_tcgetattr (mFileDescriptor m), 0),
                 (Sys_tcsetattr (mFileDescriptor m)
                   ((k_attr k)\<lparr>c_iflag := (if cs = CHAR_SIZE_8
                                            then c_iflag (k_attr k) AND NOT ISTRIP
                                            else c_iflag (k_attr k) OR ISTRIP),
                              c_cflag := (c_cflag (k_attr k) AND NOT CSIZE)
                                         OR CharSize_value h cs\<rparr>), 0),
                 (Sys_tcgetattr (mFileDescriptor m), 0)]
            \<and> k_attr (snd (SetCharSize h m cs k))
              = k_accept k (k_attr k)
                   ((k_attr k)\<lparr>c_iflag := (if cs = CHAR_SIZE_8
                                            then c_iflag (k_attr k) AND NOT ISTRIP
                                            else c_iflag (k_attr k) OR ISTRIP),
                              c_cflag := (c_cflag (k_attr k) AND NOT CSIZE)
                                         OR CharSize_value h cs\<rparr>)
            \<and> fst (SetCharSize h m cs k)
              = (if c_cflag (k_accept k (k_attr k)
                   ((k_attr k)\<lparr>c_iflag := (if cs = CHAR_SIZE_8
                                            then c_iflag (k_attr k) AND NOT ISTRIP
                                            else c_iflag (k_attr k) OR ISTRIP),
                              c_cflag := (c_cflag (k_attr k) AND NOT CSIZE)
                                         OR CharSize_value h cs\<rparr>)) AND CSIZE = CS5 then CHAR_SIZE_5
                else if c_cflag (k_accept k (k_attr k)
                   ((k_attr k)\<lparr>c_iflag := (if cs = CHAR_SIZE_8
                                            then c_iflag (k_attr k) AND NOT ISTRIP
                                            else c_iflag (k_attr k) OR ISTRIP),
                              c_cflag := (c_cflag (k_attr k) AND NOT CSIZE)
                                         OR CharSize_value h cs\<rparr>)) AND CSIZE = CS6 then CHAR_SIZE_6
                else if c_cflag (k_accept k (k_attr k)
                   ((k_attr k)\<lparr>c_iflag := (if cs = CHAR_SIZE_8
                                            then c_iflag (k_attr k) AND NOT ISTRIP
                                            else c_iflag (k_attr k) OR ISTRIP),
                              c_cflag := (c_cflag (k_attr k) AND NOT CSIZE)
                                         OR CharSize_value h cs\<rparr>)) AND CSIZE = CS7 then CHAR_SIZE_7
                else if c_cflag (k_accept k (k_attr k)
                   ((k_attr k)\<lparr>c_iflag := (if cs = CHAR_SIZE_8
                                            then c_iflag (k_attr k) AND NOT ISTRIP
                                            else c_iflag (k_attr k) OR ISTRIP),
                              c_cflag := (c_cflag (k_attr k) AND NOT CSIZE)
                                         OR CharSize_value h cs\<rparr>)) AND CSIZE = CS8 then CHAR_SIZE_8
                else CHAR_SIZE_INVALID)"
    if "cs \<in> set [CHAR_SIZE_5, CHAR_SIZE_6, CHAR_SIZE_7, CHAR_SIZE_8]" and "\<not> failing 0 k" and "\<not> failing 1 k" and "\<not> failing 2 k"
    using SetCharSize_run [OF assms that, of h]
    by (simp add: SetCharSize_written_def Let_def calls_def)
  have unwritten: "SetCharSize h m cs k
              = (CHAR_SIZE_INVALID,
                 logged (Sys_tcsetattr (mFileDescriptor m)
                   ((k_attr k)\<lparr>c_iflag := (if cs = CHAR_SIZE_8
                                            then c_iflag (k_attr k) AND NOT ISTRIP
                                            else c_iflag (k_attr k) OR ISTRIP),
                              c_cflag := (c_cflag (k_attr k) AND NOT CSIZE)
                                         OR CharSize_value h cs\<rparr>)) (-1)
                   (logged (Sys_tcgetattr (mFileDescriptor m)) 0 k))"
    if "cs \<in> set [CHAR_SIZE_5, CHAR_SIZE_6, CHAR_SIZE_7, CHAR_SIZE_8]" and "\<not> failing 0 k" and "failing 1 k"
  proof -
    from that(2) have f0: "\<not> fault k" by (simp add: failing_0)
    from that(3) have f1: "fault (logged (Sys_tcgetattr (mFileDescriptor m)) 0 k)"
      by (simp add: failing_0 [symmetric])
    from assms that(1) f0 f1 show ?thesis
      by (simp add: SetCharSize_def is_open_def sys_tcgetattr_ok sys_tcsetattr_def Let_def)
  qed
  from unread other bits written run unwritten show ?thesis by blast
qed

text \<open>
  The theorem for size 7 on cleared attributes, for size 8 on attributes with
  \<^verbatim>\<open>ISTRIP\<close> and size 7 set, for a \<^verbatim>\<open>tcgetattr\<close> and a \<^verbatim>\<open>tcsetattr\<close> that fail,
  and for the invalid size.
\<close>

theorem C5_SetCharSize_witness:
  "is_open opened \<and> \<not> failing 0 kernel0 \<and> \<not> failing 1 kernel0 \<and> \<not> failing 2 kernel0
   \<and> calls kernel0 (snd (SetCharSize example_header opened CHAR_SIZE_7 kernel0))
       = [(Sys_tcgetattr 3, 0),
          (Sys_tcsetattr 3 (termios0\<lparr>c_iflag := 0x20, c_cflag := 0x20\<rparr>), 0),
          (Sys_tcgetattr 3, 0)]
   \<and> k_attr (snd (SetCharSize example_header opened CHAR_SIZE_7 kernel0))
       = termios0\<lparr>c_iflag := 0x20, c_cflag := 0x20\<rparr>
   \<and> fst (SetCharSize example_header opened CHAR_SIZE_7 kernel0) = CHAR_SIZE_7
   \<and> calls (kernel0\<lparr>k_attr := termios0\<lparr>c_iflag := 0x21, c_cflag := 0x8AE\<rparr>\<rparr>)
        (snd (SetCharSize example_header opened CHAR_SIZE_8
          (kernel0\<lparr>k_attr := termios0\<lparr>c_iflag := 0x21, c_cflag := 0x8AE\<rparr>\<rparr>)))
       = [(Sys_tcgetattr 3, 0),
          (Sys_tcsetattr 3 (termios0\<lparr>c_iflag := 0x1, c_cflag := 0x8BE\<rparr>), 0),
          (Sys_tcgetattr 3, 0)]
   \<and> k_attr (snd (SetCharSize example_header opened CHAR_SIZE_8
          (kernel0\<lparr>k_attr := termios0\<lparr>c_iflag := 0x21, c_cflag := 0x8AE\<rparr>\<rparr>)))
       = termios0\<lparr>c_iflag := 0x1, c_cflag := 0x8BE\<rparr>
   \<and> fst (SetCharSize example_header opened CHAR_SIZE_8
          (kernel0\<lparr>k_attr := termios0\<lparr>c_iflag := 0x21, c_cflag := 0x8AE\<rparr>\<rparr>)) = CHAR_SIZE_8
   \<and> fault (kernel0\<lparr>k_faults := [True]\<rparr>)
   \<and> SetCharSize example_header opened CHAR_SIZE_7 (kernel0\<lparr>k_faults := [True]\<rparr>)
       = (CHAR_SIZE_INVALID, logged (Sys_tcgetattr 3) (-1) (kernel0\<lparr>k_faults := [True]\<rparr>))
   \<and> failing 1 (kernel0\<lparr>k_faults := [False, True]\<rparr>)
   \<and> SetCharSize example_header opened CHAR_SIZE_7 (kernel0\<lparr>k_faults := [False, True]\<rparr>)
       = (CHAR_SIZE_INVALID,
          logged (Sys_tcsetattr 3 (termios0\<lparr>c_iflag := 0x20, c_cflag := 0x20\<rparr>)) (-1)
            (logged (Sys_tcgetattr 3) 0 (kernel0\<lparr>k_faults := [False, True]\<rparr>)))
   \<and> SetCharSize example_header opened CHAR_SIZE_INVALID kernel0 = (CHAR_SIZE_INVALID, kernel0)"
proof -
  have o: "is_open opened" by (simp add: is_open_def opened_def)
  have f: "\<not> failing n (kernel0\<lparr>k_attr := a\<rparr>)" for a n by (simp add: failing_def kernel0_def)
  have f0: "\<not> failing n kernel0" for n by (simp add: failing_def kernel0_def)
  have nf: "\<not> fault kernel0" "\<not> fault (kernel0\<lparr>k_attr := a\<rparr>)" for a
    by (simp_all add: fault_def kernel0_def)
  have f1: "fault (kernel0\<lparr>k_faults := [True]\<rparr>)" by (simp add: fault_def)
  have f2: "\<not> failing 0 (kernel0\<lparr>k_faults := [False, True]\<rparr>)"
    "failing 1 (kernel0\<lparr>k_faults := [False, True]\<rparr>)" by (simp_all add: failing_def)
  from f f0 nf f1 f2 o
    C5_SetCharSize [OF o, where cs = CHAR_SIZE_7 and h = example_header and k = kernel0]
    C5_SetCharSize [OF o, where cs = CHAR_SIZE_8 and h = example_header
      and k = "kernel0\<lparr>k_attr := termios0\<lparr>c_iflag := 0x21, c_cflag := 0x8AE\<rparr>\<rparr>"]
    C5_SetCharSize [OF o, where cs = CHAR_SIZE_7 and h = example_header
      and k = "kernel0\<lparr>k_faults := [True]\<rparr>"]
    C5_SetCharSize [OF o, where cs = CHAR_SIZE_7 and h = example_header
      and k = "kernel0\<lparr>k_faults := [False, True]\<rparr>"]
    C5_SetCharSize [OF o, where cs = CHAR_SIZE_INVALID and h = example_header and k = kernel0]
  show ?thesis
    by (simp add: example_header_def example_CharSize_value_def
        kernel0_def termios0_def opened_def ISTRIP_def CSIZE_def CS5_def CS6_def CS7_def CS8_def)
qed

lemma last_calls_logged:
  "length (k_trace k0) \<le> length (k_trace k) \<Longrightarrow> last (calls k0 (logged c r k)) = (c, r)"
  by (simp add: calls_def)

text \<open>A getter that does not fail has re-read the attributes, and a second run returns the same.\<close>

lemma GetBaudRate_closed: "\<not> is_open m \<Longrightarrow> GetBaudRate m k = (BAUD_INVALID, k)"
  by (simp add: GetBaudRate_def is_open_def)

lemma GetBaudRate_fault:
  "is_open m \<Longrightarrow> fault k \<Longrightarrow>
   GetBaudRate m k = (BAUD_INVALID, logged (Sys_tcgetattr (mFileDescriptor m)) (-1) k)"
  by (simp add: GetBaudRate_def is_open_def sys_tcgetattr_fault)

lemma GetBaudRate_ok:
  "is_open m \<Longrightarrow> \<not> fault k \<Longrightarrow>
   snd (GetBaudRate m k) = logged (Sys_tcgetattr (mFileDescriptor m)) 0 k"
  by (simp add: GetBaudRate_def is_open_def sys_tcgetattr_ok Let_def)

lemma GetBaudRate_attr:
  "is_open m \<Longrightarrow> \<not> fault k \<Longrightarrow> \<not> fault k2 \<Longrightarrow> k_attr k2 = k_attr k \<Longrightarrow>
   fst (GetBaudRate m k2) = fst (GetBaudRate m k)"
  by (simp add: GetBaudRate_def is_open_def sys_tcgetattr_ok Let_def)

lemma GetBaudRate_again:
  assumes "GetBaudRate m k = (r, k')" and "r \<noteq> BAUD_INVALID"
  shows "k' = logged (Sys_tcgetattr (mFileDescriptor m)) 0 k
       \<and> (\<not> fault k' \<longrightarrow> fst (GetBaudRate m k') = r)"
proof -
  from assms have o: "is_open m" using GetBaudRate_closed [of m k] by auto
  from assms o have f: "\<not> fault k" using GetBaudRate_fault [of m k] by auto
  from GetBaudRate_ok [OF o f] assms(1) have k': "k' = logged (Sys_tcgetattr (mFileDescriptor m)) 0 k"
    by simp
  then have "k_attr k' = k_attr k" by simp
  from GetBaudRate_attr [OF o f _ this] assms(1) k' show ?thesis by simp
qed

lemma GetCharSize_again:
  assumes "GetCharSize m k = (r, k')" and "r \<noteq> CHAR_SIZE_INVALID"
  shows "k' = logged (Sys_tcgetattr (mFileDescriptor m)) 0 k
       \<and> (\<not> fault k' \<longrightarrow> fst (GetCharSize m k') = r)"
  using assms
  by (auto simp add: GetCharSize_def sys_tcgetattr_def Let_def split: if_splits)

lemma GetNumOfStopBits_again:
  assumes "GetNumOfStopBits m k = (r, k')" and "r \<noteq> 0"
  shows "k' = logged (Sys_tcgetattr (mFileDescriptor m)) 0 k
       \<and> (\<not> fault k' \<longrightarrow> fst (GetNumOfStopBits m k') = r)"
  using assms
  by (auto simp add: GetNumOfStopBits_def sys_tcgetattr_def Let_def split: if_splits)

lemma GetParity_again:
  assumes "GetParity m k = (r, k')" and "r \<noteq> PARITY_INVALID"
  shows "k' = logged (Sys_tcgetattr (mFileDescriptor m)) 0 k
       \<and> (\<not> fault k' \<longrightarrow> fst (GetParity m k') = r)"
  using assms
  by (auto simp add: GetParity_def sys_tcgetattr_def Let_def split: if_splits)

lemma GetFlowControl_again:
  assumes "GetFlowControl m k = (r, k')" and "r \<noteq> FLOW_CONTROL_INVALID"
  shows "k' = logged (Sys_tcgetattr (mFileDescriptor m)) 0 k
       \<and> (\<not> fault k' \<longrightarrow> fst (GetFlowControl m k') = r)"
  using assms
  by (auto simp add: GetFlowControl_def sys_tcgetattr_def Let_def split: if_splits)

text \<open>A setter that does not return its failure value ended in its getter.\<close>

lemma SetBaudRate_ends:
  assumes "SetBaudRate h m b k = (r, k')" and "r \<noteq> BAUD_INVALID"
  shows "\<exists>k2. GetBaudRate m k2 = (r, k') \<and> length (k_trace k) \<le> length (k_trace k2)"
  using assms
  by (auto simp add: SetBaudRate_def sys_tcgetattr_def sys_tcsetattr_def Let_def
      split: if_splits)

lemma SetCharSize_ends:
  assumes "SetCharSize h m c k = (r, k')" and "r \<noteq> CHAR_SIZE_INVALID"
  shows "\<exists>k2. GetCharSize m k2 = (r, k') \<and> length (k_trace k) \<le> length (k_trace k2)"
  using assms
  by (auto simp add: SetCharSize_def sys_tcgetattr_def sys_tcsetattr_def Let_def
      split: if_splits)

lemma SetNumOfStopBits_ends:
  assumes "SetNumOfStopBits m n k = (r, k')" and "r \<noteq> 0"
  shows "\<exists>k2. GetNumOfStopBits m k2 = (r, k') \<and> length (k_trace k) \<le> length (k_trace k2)"
  using assms
  by (auto simp add: SetNumOfStopBits_def sys_tcgetattr_def sys_tcsetattr_def Let_def
      split: if_splits)

lemma SetParity_ends:
  assumes "SetParity m p k = (r, k')" and "r \<noteq> PARITY_INVALID"
  shows "\<exists>k2. GetParity m k2 = (r, k') \<and> length (k_trace k) \<le> length (k_trace k2)"
  using assms
  by (cases p) (auto simp add: SetParity_def sys_tcgetattr_def sys_tcsetattr_def Let_def
      split: if_splits)

lemma SetFlowControl_ends:
  assumes "SetFlowControl m f k = (r, k')" and "r \<noteq> FLOW_CONTROL_INVALID"
  shows "\<exists>k2. GetFlowControl m k2 = (r, k') \<and> length (k_trace k) \<le> length (k_trace k2)"
  using assms
  by (auto simp add: SetFlowControl_def sys_tcflush_def sys_tcgetattr_def sys_tcsetattr_def Let_def
      split: if_splits)

lemma SetVMin_returns:
  assumes "SetVMin m v k = (r, k')" and "r \<noteq> -1"
  shows "r = v \<and> 0 \<le> v \<and> v \<le> 255
       \<and> calls k k' = [(Sys_tcgetattr (mFileDescriptor m), 0),
                       (Sys_tcsetattr (mFileDescriptor m)
                          ((k_attr k)\<lparr>c_cc := (c_cc (k_attr k))(VMIN := word_of_int v)\<rparr>), 0)]"
  using assms
  by (auto simp add: SetVMin_def sys_tcgetattr_def sys_tcsetattr_def Let_def calls_def
      split: if_splits)

lemma SetVTime_returns:
  assumes "SetVTime m v k = (r, k')" and "r \<noteq> -1"
  shows "r = v \<and> 0 \<le> v \<and> v \<le> 255
       \<and> calls k k' = [(Sys_tcgetattr (mFileDescriptor m), 0),
                       (Sys_tcsetattr (mFileDescriptor m)
                          ((k_attr k)\<lparr>c_cc := (c_cc (k_attr k))(VTIME := word_of_int v)\<rparr>), 0)]"
  using assms
  by (auto simp add: SetVTime_def sys_tcgetattr_def sys_tcsetattr_def Let_def calls_def
      split: if_splits)

text \<open>
  The setters of baud rate, character size, stop bits, parity and flow control, when
  they do not return their failure value, end with a \<^verbatim>\<open>tcgetattr\<close> that succeeds, and
  their result is the result of their getter on the state they leave (when the
  \<^verbatim>\<open>tcgetattr\<close> of that getter succeeds). \<^verbatim>\<open>SetVMin\<close> and \<^verbatim>\<open>SetVTime\<close>, when they do
  not return -1, return the value they were asked for; they make two calls, one
  \<^verbatim>\<open>tcgetattr\<close> and the \<^verbatim>\<open>tcsetattr\<close>, and do not read the attributes again.
\<close>

lemma setters_end:
  "(SetBaudRate h m b k = (rb, kb) \<and> rb \<noteq> BAUD_INVALID \<longrightarrow>
      last (calls k kb) = (Sys_tcgetattr (mFileDescriptor m), 0)
      \<and> (\<not> fault kb \<longrightarrow> fst (GetBaudRate m kb) = rb))
 \<and> (SetCharSize h m c k = (rc, kc) \<and> rc \<noteq> CHAR_SIZE_INVALID \<longrightarrow>
      last (calls k kc) = (Sys_tcgetattr (mFileDescriptor m), 0)
      \<and> (\<not> fault kc \<longrightarrow> fst (GetCharSize m kc) = rc))
 \<and> (SetNumOfStopBits m n k = (rn, kn) \<and> rn \<noteq> 0 \<longrightarrow>
      last (calls k kn) = (Sys_tcgetattr (mFileDescriptor m), 0)
      \<and> (\<not> fault kn \<longrightarrow> fst (GetNumOfStopBits m kn) = rn))
 \<and> (SetParity m p k = (rp, kp) \<and> rp \<noteq> PARITY_INVALID \<longrightarrow>
      last (calls k kp) = (Sys_tcgetattr (mFileDescriptor m), 0)
      \<and> (\<not> fault kp \<longrightarrow> fst (GetParity m kp) = rp))
 \<and> (SetFlowControl m f k = (rf, kf) \<and> rf \<noteq> FLOW_CONTROL_INVALID \<longrightarrow>
      last (calls k kf) = (Sys_tcgetattr (mFileDescriptor m), 0)
      \<and> (\<not> fault kf \<longrightarrow> fst (GetFlowControl m kf) = rf))
 \<and> (SetVMin m v k = (rv, kv) \<and> rv \<noteq> -1 \<longrightarrow>
      rv = v
      \<and> calls k kv = [(Sys_tcgetattr (mFileDescriptor m), 0),
                      (Sys_tcsetattr (mFileDescriptor m)
                         ((k_attr k)\<lparr>c_cc := (c_cc (k_attr k))(VMIN := word_of_int v)\<rparr>), 0)])
 \<and> (SetVTime m t k = (rt, kt) \<and> rt \<noteq> -1 \<longrightarrow>
      rt = t
      \<and> calls k kt = [(Sys_tcgetattr (mFileDescriptor m), 0),
                      (Sys_tcsetattr (mFileDescriptor m)
                         ((k_attr k)\<lparr>c_cc := (c_cc (k_attr k))(VTIME := word_of_int t)\<rparr>), 0)])"
proof -
  have baud: "last (calls k kb) = (Sys_tcgetattr (mFileDescriptor m), 0)
      \<and> (\<not> fault kb \<longrightarrow> fst (GetBaudRate m kb) = rb)"
    if "SetBaudRate h m b k = (rb, kb)" and "rb \<noteq> BAUD_INVALID"
  proof -
    from SetBaudRate_ends [OF that] obtain k2
      where g: "GetBaudRate m k2 = (rb, kb)" and l: "length (k_trace k) \<le> length (k_trace k2)"
      by blast
    from GetBaudRate_again [OF g that(2)] last_calls_logged [OF l] show ?thesis by auto
  qed
  have size: "last (calls k kc) = (Sys_tcgetattr (mFileDescriptor m), 0)
      \<and> (\<not> fault kc \<longrightarrow> fst (GetCharSize m kc) = rc)"
    if "SetCharSize h m c k = (rc, kc)" and "rc \<noteq> CHAR_SIZE_INVALID"
  proof -
    from SetCharSize_ends [OF that] obtain k2
      where g: "GetCharSize m k2 = (rc, kc)" and l: "length (k_trace k) \<le> length (k_trace k2)"
      by blast
    from GetCharSize_again [OF g that(2)] last_calls_logged [OF l] show ?thesis by auto
  qed
  have stop: "last (calls k kn) = (Sys_tcgetattr (mFileDescriptor m), 0)
      \<and> (\<not> fault kn \<longrightarrow> fst (GetNumOfStopBits m kn) = rn)"
    if "SetNumOfStopBits m n k = (rn, kn)" and "rn \<noteq> 0"
  proof -
    from SetNumOfStopBits_ends [OF that] obtain k2
      where g: "GetNumOfStopBits m k2 = (rn, kn)" and l: "length (k_trace k) \<le> length (k_trace k2)"
      by blast
    from GetNumOfStopBits_again [OF g that(2)] last_calls_logged [OF l] show ?thesis by auto
  qed
  have parity: "last (calls k kp) = (Sys_tcgetattr (mFileDescriptor m), 0)
      \<and> (\<not> fault kp \<longrightarrow> fst (GetParity m kp) = rp)"
    if "SetParity m p k = (rp, kp)" and "rp \<noteq> PARITY_INVALID"
  proof -
    from SetParity_ends [OF that] obtain k2
      where g: "GetParity m k2 = (rp, kp)" and l: "length (k_trace k) \<le> length (k_trace k2)"
      by blast
    from GetParity_again [OF g that(2)] last_calls_logged [OF l] show ?thesis by auto
  qed
  have flow: "last (calls k kf) = (Sys_tcgetattr (mFileDescriptor m), 0)
      \<and> (\<not> fault kf \<longrightarrow> fst (GetFlowControl m kf) = rf)"
    if "SetFlowControl m f k = (rf, kf)" and "rf \<noteq> FLOW_CONTROL_INVALID"
  proof -
    from SetFlowControl_ends [OF that] obtain k2
      where g: "GetFlowControl m k2 = (rf, kf)" and l: "length (k_trace k) \<le> length (k_trace k2)"
      by blast
    from GetFlowControl_again [OF g that(2)] last_calls_logged [OF l] show ?thesis by auto
  qed
  from baud size stop parity flow SetVMin_returns [of m v k rv kv] SetVTime_returns [of m t k rt kt]
  show ?thesis by blast
qed

text \<open>
  Claim C3. Five of the seven setters end in \<^verbatim>\<open>return GetX()\<close>, as the claim says;
  \<^verbatim>\<open>SetVMin\<close> and \<^verbatim>\<open>SetVTime\<close> end in \<^verbatim>\<open>return vmin\<close> and \<^verbatim>\<open>return vtime\<close>. On
  an open buffer whose driver takes the \<^verbatim>\<open>tcsetattr\<close> and keeps the \<^verbatim>\<open>VMIN\<close> it has,
  \<^verbatim>\<open>SetVMin(5)\<close> makes a \<^verbatim>\<open>tcgetattr\<close> and a \<^verbatim>\<open>tcsetattr\<close> and no other call and
  returns 5, and \<^verbatim>\<open>GetVMin\<close> on the state it leaves returns 0. The same holds of
  \<^verbatim>\<open>SetVTime(7)\<close> on a driver that keeps its \<^verbatim>\<open>VTIME\<close>.
\<close>

theorem C3_SetVMin_SetVTime_return_request:
  "fst (SetVMin opened 5 (kernel0\<lparr>k_accept := sticky_VMIN\<rparr>)) = 5
   \<and> fst (GetVMin opened (snd (SetVMin opened 5 (kernel0\<lparr>k_accept := sticky_VMIN\<rparr>)))) = 0
   \<and> calls (kernel0\<lparr>k_accept := sticky_VMIN\<rparr>)
        (snd (SetVMin opened 5 (kernel0\<lparr>k_accept := sticky_VMIN\<rparr>)))
       = [(Sys_tcgetattr 3, 0),
          (Sys_tcsetattr 3 (termios0\<lparr>c_cc := (c_cc termios0)(VMIN := 5)\<rparr>), 0)]
   \<and> fst (SetVTime opened 7 (kernel0\<lparr>k_accept := sticky_VTIME\<rparr>)) = 7
   \<and> fst (GetVTime opened (snd (SetVTime opened 7 (kernel0\<lparr>k_accept := sticky_VTIME\<rparr>)))) = 0
   \<and> calls (kernel0\<lparr>k_accept := sticky_VTIME\<rparr>)
        (snd (SetVTime opened 7 (kernel0\<lparr>k_accept := sticky_VTIME\<rparr>)))
       = [(Sys_tcgetattr 3, 0),
          (Sys_tcsetattr 3 (termios0\<lparr>c_cc := (c_cc termios0)(VTIME := 7)\<rparr>), 0)]"
  by (simp add: SetVMin_def GetVMin_def SetVTime_def GetVTime_def opened_def kernel0_def
      termios0_def sticky_VMIN_def sticky_VTIME_def
      sys_tcgetattr_def sys_tcsetattr_def fault_def logged_def calls_def Let_def)

section \<open>Opening and closing of the stream buffer\<close>

lemma k_fds_logged [simp]: "k_fds (logged c r k) = k_fds k"
  by (simp add: logged_def)





text \<open>
  \<^verbatim>\<open>close\<close> of the stream buffer on a buffer that is not open, on an open buffer when
  the system call fails, and when it succeeds: only then is the descriptor reset.
\<close>

lemma SerialStreamBuf_close_closed:
  "\<not> is_open m \<Longrightarrow> SerialStreamBuf_close m k = (False, m, k)"
  by (simp add: SerialStreamBuf_close_def)

lemma SerialStreamBuf_close_fault:
  "is_open m \<Longrightarrow> fault k \<Longrightarrow>
   SerialStreamBuf_close m k = (False, m, logged (Sys_close (mFileDescriptor m)) (-1) k)"
  by (simp add: SerialStreamBuf_close_def sys_close_def)

lemma SerialStreamBuf_close_ok:
  "is_open m \<Longrightarrow> \<not> fault k \<Longrightarrow>
   SerialStreamBuf_close m k =
     (True, m\<lparr>mFileDescriptor := -1\<rparr>,
      logged (Sys_close (mFileDescriptor m)) 0
        (k\<lparr>k_fds := removeAll (mFileDescriptor m) (k_fds k)\<rparr>))"
  by (simp add: SerialStreamBuf_close_def sys_close_def)

text \<open>
  An \<^verbatim>\<open>open\<close> of the stream buffer of which no call fails: it returns \<^verbatim>\<open>this\<close>, the
  buffer has descriptor 3, and the line is left at 19200 baud, 8 bits, receiver on.
\<close>

lemma example_open:
  "fst (SerialStreamBuf_open example_header Implementation_new ''/dev/ttyS0''
          (ios_in OR ios_out) kernel0) = True
   \<and> fst (snd (SerialStreamBuf_open example_header Implementation_new ''/dev/ttyS0''
          (ios_in OR ios_out) kernel0)) = opened
   \<and> c_cflag (k_attr (snd (snd (SerialStreamBuf_open example_header Implementation_new
          ''/dev/ttyS0'' (ios_in OR ios_out) kernel0)))) = 0x8BE"
  by code_simp

text \<open>
  The speed is in \<^verbatim>\<open>c_cflag\<close>: \<^verbatim>\<open>SetBaudRate\<close> writes it there and returns what
  \<^verbatim>\<open>GetBaudRate\<close> reads from there.
\<close>

lemma example_SetBaudRate:
  "fst (SetBaudRate example_header opened BAUD_9600 kernel0) = BAUD_9600
   \<and> c_cflag (k_attr (snd (SetBaudRate example_header opened BAUD_9600 kernel0))) = 0xD
   \<and> fst (GetBaudRate opened (kernel0\<lparr>k_attr := termios0\<lparr>c_cflag := 0x8BD\<rparr>\<rparr>)) = BAUD_9600
   \<and> fst (GetBaudRate opened (kernel0\<lparr>k_attr := termios0\<lparr>c_cflag := 0x8B0\<rparr>\<rparr>)) = BAUD_INVALID"
  by code_simp

text \<open>
  Claim C7. \<^verbatim>\<open>open\<close> on a buffer that is open returns the null pointer, makes no
  system call and leaves the descriptor, the putback byte and the putback flag as
  they were.
\<close>

theorem C7_open_twice:
  "is_open m \<Longrightarrow> SerialStreamBuf_open h m filename mode k = (False, m, k)"
  by (simp add: SerialStreamBuf_open_def)

text \<open>The theorem on an open buffer that holds a putback byte.\<close>

theorem C7_open_twice_witness:
  "is_open opened_A
   \<and> SerialStreamBuf_open example_header opened_A ''/dev/ttyS0'' (ios_in OR ios_out) kernel0
       = (False, opened_A, kernel0)"
proof -
  have o: "is_open opened_A" by (simp add: is_open_def opened_A_def)
  from C7_open_twice [OF o] o show ?thesis by simp
qed

section \<open>Opening and closing of the serial port handle\<close>

lemma SerialPort_Close_closed:
  "\<not> SerialPort_IsOpen m \<Longrightarrow> SerialPort_Close m k = (Inl NotOpen, m, k)"
  by (simp add: SerialPort_Close_def)

lemma SerialPort_Close_open:
  assumes "SerialPort_IsOpen m" and "SerialPort_Close m k = (r, m', k')"
  shows "r = Inr () \<and> m' = m\<lparr>mIsOpen := False\<rparr>
       \<and> map fst (calls k k')
           = [Sys_tcsetattr (mFileDescriptor_SP m) (mOldPortSettings m),
              Sys_close (mFileDescriptor_SP m)]
       \<and> k_handlers k' = remove1 SIGIO (k_handlers k)"
  using assms
  by (auto simp add: SerialPort_Close_def DetachHandler_def sys_tcsetattr_def sys_close_def
      calls_def logged_def Let_def split: if_splits)

lemma SerialPort_Open_success:
  assumes "SerialPort_Open m k = (Inr (), m', k')"
  shows "SerialPort_IsOpen m' \<and> \<not> SerialPort_IsOpen m"
  using assms
  by (auto simp add: SerialPort_Open_def SerialPort_IsOpen_def Let_def
      split: if_splits prod.splits option.splits)

lemma k_fds_attr_etc [simp]:
  "k_fds (AttachHandler n k) = k_fds k" "k_trace (AttachHandler n k) = k_trace k"
  "fault (AttachHandler n k) = fault k"
  by (simp_all add: AttachHandler_def fault_def)

lemma fault_updates [simp]:
  "fault (k\<lparr>k_owner := a\<rparr>) = fault k" "fault (k\<lparr>k_flags := b\<rparr>) = fault k"
  "fault (k\<lparr>k_rx := c\<rparr>) = fault k" "fault (k\<lparr>k_fds := d\<rparr>) = fault k"
  by (simp_all add: fault_def)

lemmas port_defs =
  port0_def port_opened_def SerialPort_Implementation_new_def zeroed_def
  SerialPort_Open_def SerialPort_Close_def SerialPort_IsOpen_def
  AttachHandler_def DetachHandler_def getpid_def
  sys_open_def sys_close_def sys_fcntl_setown_def sys_fcntl_setfl_def sys_tcgetattr_def
  sys_tcflush_def sys_tcsetattr_def new_fd_def fault_def logged_def calls_def Let_def
  kernel0_def termios0_def
  O_RDWR_def O_NOCTTY_def O_NONBLOCK_def FASYNC_def TCIFLUSH_def TCIOFLUSH_def SIGIO_def
  CREAD_def CLOCAL_def VMIN_def VTIME_def

text \<open>An \<^verbatim>\<open>Open\<close> of which no call fails, with the calls it makes.\<close>

lemma example_SerialPort_Open:
  "fst (SerialPort_Open port0 kernel0) = Inr ()
   \<and> fst (snd (SerialPort_Open port0 kernel0)) = port_opened
   \<and> calls kernel0 (snd (snd (SerialPort_Open port0 kernel0)))
       = [(Sys_open ''/dev/ttyS0'' 2306, 3), (Sys_fcntl_setown 3 4711, 0),
          (Sys_fcntl_setfl 3 8192, 0), (Sys_tcgetattr 3, 0), (Sys_tcflush 3 0, 0),
          (Sys_tcsetattr 3 (termios0\<lparr>c_cflag := 0x880\<rparr>), 0)]
   \<and> k_fds (snd (snd (SerialPort_Open port0 kernel0))) = [3]
   \<and> k_handlers (snd (snd (SerialPort_Open port0 kernel0))) = [29]"
  by (simp add: port_defs fun_eq_iff)

text \<open>
  Claim C6. \<^verbatim>\<open>Close\<close> on a handle that is not open throws \<^verbatim>\<open>NotOpen\<close> and changes
  nothing. After an \<^verbatim>\<open>Open\<close> that returned, \<^verbatim>\<open>IsOpen\<close> is true. A \<^verbatim>\<open>Close\<close> on an
  open handle returns, whatever its two system calls \<^verbatim>\<open>tcsetattr\<close> and \<^verbatim>\<open>close\<close>
  return; it deregisters the handle, changes no member but the flag and leaves
  \<^verbatim>\<open>IsOpen\<close> false, so that a second \<^verbatim>\<open>Close\<close> throws \<^verbatim>\<open>NotOpen\<close> and changes
  nothing.
\<close>

theorem C6_close:
  "(\<not> SerialPort_IsOpen m \<longrightarrow> SerialPort_Close m k = (Inl NotOpen, m, k))
 \<and> (SerialPort_Open m0 k0 = (Inr (), m1, k1) \<longrightarrow> SerialPort_IsOpen m1)
 \<and> (SerialPort_IsOpen m \<and> SerialPort_Close m k = (r, m', k') \<longrightarrow>
       r = Inr () \<and> m' = m\<lparr>mIsOpen := False\<rparr> \<and> \<not> SerialPort_IsOpen m'
       \<and> k_handlers k' = remove1 SIGIO (k_handlers k)
       \<and> map fst (calls k k')
           = [Sys_tcsetattr (mFileDescriptor_SP m) (mOldPortSettings m),
              Sys_close (mFileDescriptor_SP m)]
       \<and> SerialPort_Close m' k2 = (Inl NotOpen, m', k2))"
proof -
  have a: "\<not> SerialPort_IsOpen m \<longrightarrow> SerialPort_Close m k = (Inl NotOpen, m, k)"
    by (simp add: SerialPort_Close_closed)
  have b: "SerialPort_Open m0 k0 = (Inr (), m1, k1) \<longrightarrow> SerialPort_IsOpen m1"
    using SerialPort_Open_success [of m0 k0 m1 k1] by blast
  have c: "SerialPort_IsOpen m \<and> SerialPort_Close m k = (r, m', k') \<longrightarrow>
       r = Inr () \<and> m' = m\<lparr>mIsOpen := False\<rparr> \<and> \<not> SerialPort_IsOpen m'
       \<and> k_handlers k' = remove1 SIGIO (k_handlers k)
       \<and> map fst (calls k k')
           = [Sys_tcsetattr (mFileDescriptor_SP m) (mOldPortSettings m),
              Sys_close (mFileDescriptor_SP m)]
       \<and> SerialPort_Close m' k2 = (Inl NotOpen, m', k2)"
  proof
    assume "SerialPort_IsOpen m \<and> SerialPort_Close m k = (r, m', k')"
    then have o: "SerialPort_IsOpen m" and run: "SerialPort_Close m k = (r, m', k')"
      by simp_all
    from SerialPort_Close_open [OF o run]
    have r: "r = Inr ()" and m': "m' = m\<lparr>mIsOpen := False\<rparr>"
      and tr: "map fst (calls k k')
           = [Sys_tcsetattr (mFileDescriptor_SP m) (mOldPortSettings m),
              Sys_close (mFileDescriptor_SP m)]"
      and hs: "k_handlers k' = remove1 SIGIO (k_handlers k)"
      by simp_all
    from m' have closed: "\<not> SerialPort_IsOpen m'" by (simp add: SerialPort_IsOpen_def)
    from r m' hs closed tr SerialPort_Close_closed [OF closed, of k2]
    show "r = Inr () \<and> m' = m\<lparr>mIsOpen := False\<rparr> \<and> \<not> SerialPort_IsOpen m'
       \<and> k_handlers k' = remove1 SIGIO (k_handlers k)
       \<and> map fst (calls k k')
           = [Sys_tcsetattr (mFileDescriptor_SP m) (mOldPortSettings m),
              Sys_close (mFileDescriptor_SP m)]
       \<and> SerialPort_Close m' k2 = (Inl NotOpen, m', k2)" by simp
  qed
  from a b c show ?thesis by blast
qed

text \<open>
  The theorem on a handle never opened, on an \<^verbatim>\<open>Open\<close> that returns, and on a
  \<^verbatim>\<open>Close\<close> both of whose system calls fail, followed by a second \<^verbatim>\<open>Close\<close>.
\<close>

theorem C6_close_witness:
  "\<not> SerialPort_IsOpen port0
   \<and> SerialPort_Close port0 kernel0 = (Inl NotOpen, port0, kernel0)
   \<and> fst (SerialPort_Open port0 kernel0) = Inr ()
   \<and> fst (snd (SerialPort_Open port0 kernel0)) = port_opened
   \<and> SerialPort_IsOpen port_opened
   \<and> fst (SerialPort_Close port_opened
        ((snd (snd (SerialPort_Open port0 kernel0)))\<lparr>k_faults := [True, True]\<rparr>)) = Inr ()
   \<and> calls ((snd (snd (SerialPort_Open port0 kernel0)))\<lparr>k_faults := [True, True]\<rparr>)
        (snd (snd (SerialPort_Close port_opened
          ((snd (snd (SerialPort_Open port0 kernel0)))\<lparr>k_faults := [True, True]\<rparr>))))
       = [(Sys_tcsetattr 3 termios0, -1), (Sys_close 3, -1)]
   \<and> fst (snd (SerialPort_Close port_opened
        ((snd (snd (SerialPort_Open port0 kernel0)))\<lparr>k_faults := [True, True]\<rparr>)))
       = port_opened\<lparr>mIsOpen := False\<rparr>
   \<and> \<not> SerialPort_IsOpen (port_opened\<lparr>mIsOpen := False\<rparr>)
   \<and> SerialPort_Close (port_opened\<lparr>mIsOpen := False\<rparr>)
        (snd (snd (SerialPort_Close port_opened
          ((snd (snd (SerialPort_Open port0 kernel0)))\<lparr>k_faults := [True, True]\<rparr>))))
       = (Inl NotOpen, port_opened\<lparr>mIsOpen := False\<rparr>,
          snd (snd (SerialPort_Close port_opened
            ((snd (snd (SerialPort_Open port0 kernel0)))\<lparr>k_faults := [True, True]\<rparr>))))"
proof -
  let ?o = "SerialPort_Open port0 kernel0"
  let ?K = "(snd (snd ?o))\<lparr>k_faults := [True, True]\<rparr>"
  let ?c = "SerialPort_Close port_opened ?K"
  have closed: "\<not> SerialPort_IsOpen port0" by (simp add: port_defs)
  have opn1: "fst ?o = Inr ()" and opn2: "fst (snd ?o) = port_opened"
    using example_SerialPort_Open by simp_all
  then have opn: "?o = (Inr (), port_opened, snd (snd ?o))" by (simp add: prod_eq_iff)
  have run: "?c = (fst ?c, fst (snd ?c), snd (snd ?c))" by simp
  have tr: "calls ?K (snd (snd ?c)) = [(Sys_tcsetattr 3 termios0, -1), (Sys_close 3, -1)]"
    by (simp add: port_defs)
  have m': "fst (snd ?c) = port_opened\<lparr>mIsOpen := False\<rparr>"
    by (simp add: port_defs)
  note first = C6_close [where m = port0 and k = kernel0 and ?m0.0 = port0 and ?k0.0 = kernel0
      and ?m1.0 = port_opened and ?k1.0 = "snd (snd ?o)"]
  from first closed
  have never: "SerialPort_Close port0 kernel0 = (Inl NotOpen, port0, kernel0)" by blast
  from first opn have o: "SerialPort_IsOpen port_opened" by blast
  from C6_close [where m = port_opened and k = ?K and r = "fst ?c" and m' = "fst (snd ?c)"
      and k' = "snd (snd ?c)" and ?k2.0 = "snd (snd ?c)"] o run
  have second: "fst ?c = Inr () \<and> \<not> SerialPort_IsOpen (fst (snd ?c))
      \<and> SerialPort_Close (fst (snd ?c)) (snd (snd ?c))
          = (Inl NotOpen, fst (snd ?c), snd (snd ?c))"
    by blast
  from closed never opn1 opn2 o second tr m' show ?thesis by simp
qed



end
